theory Spec2Isabelle
  imports Main
begin

section \<open>Python values, exceptions and the outside world\<close>

text \<open>
  The two scripts \<^verbatim>\<open>scripts/nfl-data-pipeline.py\<close> and
  \<^verbatim>\<open>scripts/simple-nfl-data-fetch.py\<close> are sequences of calls into libraries
  (\<^verbatim>\<open>requests\<close>, \<^verbatim>\<open>nfl_data_py\<close>, the file system, the clock) with
  \<^verbatim>\<open>try\<close>/\<^verbatim>\<open>except\<close> around them. The libraries are not part of the
  repository: they are a parameter of the model (an environment of operations over an
  abstract world \<open>'w\<close>), and every operation answers with a value or with a raised
  exception.
\<close>

datatype json =
    JNull
  | JBool bool
  | JInt int
  | JFloat string
  | JStr string
  | JArr "json list"
  | JObj "(string \<times> json) list"

text \<open>A record of the scripts is a Python \<^verbatim>\<open>dict\<close> from field names to values.\<close>

type_synonym py_dict = "(string \<times> json) list"

text \<open>
  What a \<^verbatim>\<open>raise\<close> carries. \<^verbatim>\<open>except Exception\<close> catches the instances of
  \<^verbatim>\<open>Exception\<close> only; \<^verbatim>\<open>KeyboardInterrupt\<close> and \<^verbatim>\<open>SystemExit\<close>
  derive from \<^verbatim>\<open>BaseException\<close> alone and pass through such a handler. The
  string is \<^verbatim>\<open>str(e)\<close>.
\<close>

datatype py_raise = Exception string | BaseException string

record response =
  status_code :: int
  response_text :: string

record request =
  url :: string
  headers :: "(string \<times> string) list"
  json_body :: "py_dict list"

text \<open>The object \<^verbatim>\<open>self\<close> of \<^verbatim>\<open>NFLDataPipeline\<close>; the two credentials are
  what \<^verbatim>\<open>os.getenv\<close> gave: \<open>None\<close> for a variable that is not set.\<close>

record pipeline =
  output_dir :: string
  current_season :: int
  supabase_url :: "string option"
  supabase_key :: "string option"

text \<open>A data frame of \<^verbatim>\<open>pandas\<close> is taken by its rows, each a record (the
  view \<^verbatim>\<open>orient='records'\<close> that the scripts serialise); \<^verbatim>\<open>pd.DataFrame()\<close>
  is the frame without rows.\<close>

type_synonym dataframe = "py_dict list"

text \<open>The calls into \<^verbatim>\<open>nfl_data_py\<close>, with their arguments; \<open>None\<close> for a
  \<^verbatim>\<open>columns\<close> keyword that is not given.\<close>

datatype nfl_call =
    Import_rosters "int list"
  | Import_weekly_data "int list" "string list option"
  | Import_schedules "int list"
  | Import_injuries "int list"
  | Import_team_desc
  | Import_seasonal_data "int list"
  | Import_pbp_data "int list" "string list option"

text \<open>
  The libraries: \<^verbatim>\<open>requests.post\<close>, the importers of \<^verbatim>\<open>nfl_data_py\<close>,
  writing a JSON document to a path (\<^verbatim>\<open>DataFrame.to_json\<close>, or \<^verbatim>\<open>open\<close>
  followed by \<^verbatim>\<open>json.dump\<close>), and \<^verbatim>\<open>datetime.now().isoformat()\<close>.
\<close>

record 'w env =
  requests_post :: "'w \<Rightarrow> request \<Rightarrow> (py_raise + response) \<times> 'w"
  nfl_import :: "'w \<Rightarrow> nfl_call \<Rightarrow> (py_raise + dataframe) \<times> 'w"
  write_json :: "'w \<Rightarrow> string \<Rightarrow> json \<Rightarrow> py_raise option \<times> 'w"
  now_isoformat :: "'w \<Rightarrow> string \<times> 'w"

text \<open>
  The state a run threads through: the world, what was printed, and a log of every
  call into a library that can fail, with its outcome. The logs are instrumentation: the
  program never reads them. \<^verbatim>\<open>print\<close> is taken to succeed.
\<close>

record 'w state =
  world :: 'w
  stdout :: "string list"
  posts :: "(request \<times> (py_raise + response)) list"
  import_log :: "(nfl_call \<times> (py_raise + dataframe)) list"
  writes :: "(string \<times> json \<times> py_raise option) list"

definition py_print :: "string \<Rightarrow> 'w state \<Rightarrow> 'w state" where
  "py_print m s = s\<lparr>stdout := stdout s @ [m]\<rparr>"

definition post_call :: "'w env \<Rightarrow> request \<Rightarrow> 'w state \<Rightarrow> (py_raise + response) \<times> 'w state" where
  "post_call env req s =
     (let (out, w) = requests_post env (world s) req
      in (out, s\<lparr>world := w, posts := posts s @ [(req, out)]\<rparr>))"

definition import_call :: "'w env \<Rightarrow> nfl_call \<Rightarrow> 'w state \<Rightarrow> (py_raise + dataframe) \<times> 'w state" where
  "import_call env c s =
     (let (out, w) = nfl_import env (world s) c
      in (out, s\<lparr>world := w, import_log := import_log s @ [(c, out)]\<rparr>))"

text \<open>A write returns \<^verbatim>\<open>None\<close> (here the unit value) or raises.\<close>

definition write_call :: "'w env \<Rightarrow> string \<Rightarrow> json \<Rightarrow> 'w state \<Rightarrow> (py_raise + unit) \<times> 'w state" where
  "write_call env path doc s =
     (let (out, w) = write_json env (world s) path doc
      in (case out of None \<Rightarrow> Inr () | Some e \<Rightarrow> Inl e,
          s\<lparr>world := w, writes := writes s @ [(path, doc, out)]\<rparr>))"

definition now_call :: "'w env \<Rightarrow> 'w state \<Rightarrow> string \<times> 'w state" where
  "now_call env s = (let (t, w) = now_isoformat env (world s) in (t, s\<lparr>world := w\<rparr>))"

text \<open>Sequencing: the statements after a call run only when the call did not raise.\<close>

definition bind ::
  "(py_raise + 'a) \<times> 'w state \<Rightarrow> ('a \<Rightarrow> 'w state \<Rightarrow> (py_raise + 'b) \<times> 'w state) \<Rightarrow>
   (py_raise + 'b) \<times> 'w state" where
  "bind m f = (case m of (Inl e, s) \<Rightarrow> (Inl e, s) | (Inr v, s) \<Rightarrow> f v s)"

text \<open>\<^verbatim>\<open>try: ... except Exception as e: handler\<close> around a block: the handler
  gets \<^verbatim>\<open>str(e)\<close>; what is not an \<^verbatim>\<open>Exception\<close> passes.\<close>

definition except_Exception ::
  "(py_raise + 'a) \<times> 'w state \<Rightarrow> (string \<Rightarrow> 'w state \<Rightarrow> (py_raise + 'a) \<times> 'w state) \<Rightarrow>
   (py_raise + 'a) \<times> 'w state" where
  "except_Exception m handler =
     (case m of (Inl (Exception e), s) \<Rightarrow> handler e s | (r, s) \<Rightarrow> (r, s))"

text \<open>Truth value of an \<^verbatim>\<open>Optional[str]\<close>: \<open>None\<close> and the empty string are false.\<close>

fun py_truthy :: "string option \<Rightarrow> bool" where
  "py_truthy None = False"
| "py_truthy (Some v) = (v \<noteq> [])"

text \<open>\<^verbatim>\<open>d.get(k, default)\<close> on a dict written as a literal.\<close>

definition dict_get :: "('k \<times> 'v) list \<Rightarrow> 'k \<Rightarrow> 'v \<Rightarrow> 'v" where
  "dict_get d k dflt = (case map_of d k of None \<Rightarrow> dflt | Some v \<Rightarrow> v)"

text \<open>\<^verbatim>\<open>range(start, stop, step)\<close> for a positive step, as the list of its values.\<close>

function py_range :: "nat \<Rightarrow> nat \<Rightarrow> nat \<Rightarrow> nat list" where
  "py_range start stop step =
     (if 0 < step \<and> start < stop then start # py_range (start + step) stop step else [])"
  by pat_completeness auto
termination
  by (relation "measure (\<lambda>(start, stop, step). stop - start)") auto

declare py_range.simps [simp del]

text \<open>\<^verbatim>\<open>xs[i:j]\<close> for indices that are not negative: a new list.\<close>

definition py_slice :: "'a list \<Rightarrow> nat \<Rightarrow> nat \<Rightarrow> 'a list" where
  "py_slice xs i j = take (j - i) (drop i xs)"

text \<open>\<^verbatim>\<open>str(n)\<close> for an integer that is not negative, and for any integer.\<close>

fun str_nat :: "nat \<Rightarrow> string" where
  "str_nat n =
     (if n < 10 then [''0123456789'' ! n]
      else str_nat (n div 10) @ [''0123456789'' ! (n mod 10)])"

declare str_nat.simps [simp del]




text \<open>How a block of statements ends: it falls through, returns a value, or raises.\<close>

datatype 'a completion = Normal | Returned 'a | Raised py_raise

section \<open>The batch uploader: \<^verbatim>\<open>NFLDataPipeline.update_supabase_database\<close>\<close>

text \<open>
  \<^verbatim>\<open>nfl-data-pipeline.py\<close>, lines 227 to 273. Every message is the text of the
  \<^verbatim>\<open>print\<close> in the source without its pictograph.
\<close>

definition table_mapping :: "(string \<times> string) list" where
  "table_mapping =
     [(''players'', ''nfl_players''),
      (''stats'', ''player_game_stats''),
      (''projections'', ''player_projections'')]"

text \<open>The body of the \<^verbatim>\<open>for i in range(0, len(data), batch_size)\<close> loop, run over
  the values of the range.\<close>

fun upload_batches ::
  "'w env \<Rightarrow> string \<Rightarrow> (string \<times> string) list \<Rightarrow> py_dict list \<Rightarrow> nat \<Rightarrow> nat list \<Rightarrow>
   'w state \<Rightarrow> bool completion \<times> 'w state" where
  "upload_batches env url_v headers_v data batch_size [] s = (Normal, s)"
| "upload_batches env url_v headers_v data batch_size (i # rest) s =
     (let batch = py_slice data i (i + batch_size);
          (out, s1) = post_call env \<lparr>url = url_v, headers = headers_v, json_body = batch\<rparr> s
      in case out of
           Inl e \<Rightarrow> (Raised e, s1)
         | Inr resp \<Rightarrow>
             if status_code resp \<notin> {200, 201}
             then (Returned False,
                   py_print (''Error updating batch '' @ str_nat (i div batch_size + 1) @ '': ''
                             @ response_text resp) s1)
             else upload_batches env url_v headers_v data batch_size rest
                    (py_print (''Updated batch '' @ str_nat (i div batch_size + 1) @ ''/''
                               @ str_nat ((length data + batch_size - 1) div batch_size)) s1))"

text \<open>The body of the \<^verbatim>\<open>try\<close>: it returns a boolean or raises. It is entered only
  with both credentials present.\<close>

definition upload_try ::
  "'w env \<Rightarrow> pipeline \<Rightarrow> string \<Rightarrow> py_dict list \<Rightarrow> 'w state \<Rightarrow> (py_raise + bool) \<times> 'w state" where
  "upload_try env self data_type data s =
     (let headers_v =
            [(''apikey'', the (supabase_key self)),
             (''Authorization'', ''Bearer '' @ the (supabase_key self)),
             (''Content-Type'', ''application/json''),
             (''Prefer'', ''return=minimal'')];
          table_name = dict_get table_mapping data_type data_type;
          url_v = the (supabase_url self) @ ''/rest/v1/'' @ table_name;
          batch_size = 100;
          (c, s1) = upload_batches env url_v headers_v data batch_size
                      (py_range 0 (length data) batch_size) s
      in case c of
           Raised e \<Rightarrow> (Inl e, s1)
         | Returned b \<Rightarrow> (Inr b, s1)
         | Normal \<Rightarrow>
             (Inr True,
              py_print (''Successfully updated '' @ str_nat (length data) @ '' '' @ data_type
                        @ '' records in Supabase'') s1))"

definition update_supabase_database ::
  "'w env \<Rightarrow> pipeline \<Rightarrow> string \<Rightarrow> py_dict list \<Rightarrow> 'w state \<Rightarrow> (py_raise + bool) \<times> 'w state" where
  "update_supabase_database env self data_type data s =
     (if \<not> py_truthy (supabase_url self) \<or> \<not> py_truthy (supabase_key self)
      then (Inr False, py_print ''Supabase credentials not found, skipping database update'' s)
      else
        let s0 = py_print (''Updating Supabase with '' @ data_type @ '' data (''
                           @ str_nat (length data) @ '' records)...'') s;
            (r, s1) = upload_try env self data_type data s0
        in case r of
             Inr b \<Rightarrow> (Inr b, s1)
           | Inl (Exception e) \<Rightarrow> (Inr False, py_print (''Error updating Supabase: '' @ e) s1)
           | Inl (BaseException e) \<Rightarrow> (Inl (BaseException e), s1))"

section \<open>Vocabulary of the uploader's properties\<close>

text \<open>A batch counts as successful when a response came back and its status is 200 or
  201 (the test \<^verbatim>\<open>response.status_code not in [200, 201]\<close>).\<close>

definition batch_ok :: "py_raise + response \<Rightarrow> bool" where
  "batch_ok out = (case out of Inl e \<Rightarrow> False | Inr r \<Rightarrow> status_code r \<in> {200, 201})"

text \<open>The slices \<^verbatim>\<open>data[i:i + batch_size]\<close> the loop header enumerates, with
  \<^verbatim>\<open>batch_size = 100\<close>.\<close>

definition batches :: "py_dict list \<Rightarrow> py_dict list list" where
  "batches data = map (\<lambda>i. py_slice data i (i + 100)) (py_range 0 (length data) 100)"

text \<open>The write calls issued between two states, oldest first.\<close>

definition new_posts :: "'w state \<Rightarrow> 'w state \<Rightarrow> (request \<times> (py_raise + response)) list" where
  "new_posts s s' = drop (length (posts s)) (posts s')"

text \<open>The request the \<^verbatim>\<open>try\<close> block builds for one batch.\<close>

definition upload_request :: "pipeline \<Rightarrow> string \<Rightarrow> py_dict list \<Rightarrow> request" where
  "upload_request self data_type batch =
     \<lparr>url = the (supabase_url self) @ ''/rest/v1/'' @ dict_get table_mapping data_type data_type,
      headers = [(''apikey'', the (supabase_key self)),
                 (''Authorization'', ''Bearer '' @ the (supabase_key self)),
                 (''Content-Type'', ''application/json''),
                 (''Prefer'', ''return=minimal'')],
      json_body = batch\<rparr>"

text \<open>Following the spec's words (``the static mapping's entry for data_type when one
  exists, the literal data_type string verbatim otherwise''), to be compared with what the
  code puts into the URL.\<close>

definition spec_resource_name :: "string \<Rightarrow> string" where
  "spec_resource_name data_type =
     (if data_type = ''players'' then ''nfl_players''
      else if data_type = ''stats'' then ''player_game_stats''
      else if data_type = ''projections'' then ''player_projections''
      else data_type)"

section \<open>Concrete inputs\<close>

text \<open>An endpoint that answers the \<open>n\<close>-th request of a run with the \<open>n\<close>-th entry
  of a script, and with status 201 once the script is used up. Its world is the number
  of requests served.\<close>

definition scripted_env :: "(py_raise + response) list \<Rightarrow> nat env" where
  "scripted_env outs =
     \<lparr>requests_post = (\<lambda>n req.
        (if n < length outs then outs ! n else Inr \<lparr>status_code = 201, response_text = ''''\<rparr>,
         Suc n)),
      nfl_import = (\<lambda>n c. (Inr [], n)),
      write_json = (\<lambda>n path doc. (None, n)),
      now_isoformat = (\<lambda>n. (''2024-09-08T13:00:00'', n))\<rparr>"

definition start_state :: "nat state" where
  "start_state = \<lparr>world = 0, stdout = [], posts = [], import_log = [], writes = []\<rparr>"

definition example_pipeline :: pipeline where
  "example_pipeline =
     \<lparr>output_dir = ''data/nfl'', current_season = 2024,
      supabase_url = Some ''https://example.supabase.co'', supabase_key = Some ''anon-key''\<rparr>"

definition player_record :: "nat \<Rightarrow> py_dict" where
  "player_record i = [(''player_id'', JInt (int i))]"

definition numbered_records :: "nat \<Rightarrow> py_dict list" where
  "numbered_records n = map player_record [0..<n]"

section \<open>The fetch steps and \<^verbatim>\<open>NFLDataPipeline.run_full_pipeline\<close>\<close>















definition new_writes :: "'w state \<Rightarrow> 'w state \<Rightarrow> (string \<times> json \<times> py_raise option) list" where
  "new_writes s s' = drop (length (writes s)) (writes s')"

text \<open>The outcome of a write, from its log entry.\<close>

definition write_outcome :: "string \<times> json \<times> py_raise option \<Rightarrow> py_raise option" where
  "write_outcome x = snd (snd x)"






section \<open>The simplified pipeline: \<^verbatim>\<open>SimpleNFLDataFetcher\<close>\<close>

text \<open>\<^verbatim>\<open>simple-nfl-data-fetch.py\<close>, lines 22 to 326. The object \<^verbatim>\<open>self\<close>
  of \<^verbatim>\<open>SimpleNFLDataFetcher\<close>: its two attributes have the names of the first two of
  \<^verbatim>\<open>NFLDataPipeline\<close> and are prefixed here.\<close>

record simple_fetcher =
  simple_output_dir :: string
  simple_current_season :: int

text \<open>The tables the steps write, as the source spells them.\<close>

definition teams :: "py_dict list" where
  "teams =
     [[(''abbreviation'', JStr ''ARI''), (''name'', JStr ''Arizona Cardinals''),
         (''conference'', JStr ''NFC''), (''division'', JStr ''West'')],
       [(''abbreviation'', JStr ''ATL''), (''name'', JStr ''Atlanta Falcons''),
         (''conference'', JStr ''NFC''), (''division'', JStr ''South'')],
       [(''abbreviation'', JStr ''BAL''), (''name'', JStr ''Baltimore Ravens''),
         (''conference'', JStr ''AFC''), (''division'', JStr ''North'')],
       [(''abbreviation'', JStr ''BUF''), (''name'', JStr ''Buffalo Bills''),
         (''conference'', JStr ''AFC''), (''division'', JStr ''East'')],
       [(''abbreviation'', JStr ''CAR''), (''name'', JStr ''Carolina Panthers''),
         (''conference'', JStr ''NFC''), (''division'', JStr ''South'')],
       [(''abbreviation'', JStr ''CHI''), (''name'', JStr ''Chicago Bears''),
         (''conference'', JStr ''NFC''), (''division'', JStr ''North'')],
       [(''abbreviation'', JStr ''CIN''), (''name'', JStr ''Cincinnati Bengals''),
         (''conference'', JStr ''AFC''), (''division'', JStr ''North'')],
       [(''abbreviation'', JStr ''CLE''), (''name'', JStr ''Cleveland Browns''),
         (''conference'', JStr ''AFC''), (''division'', JStr ''North'')],
       [(''abbreviation'', JStr ''DAL''), (''name'', JStr ''Dallas Cowboys''),
         (''conference'', JStr ''NFC''), (''division'', JStr ''East'')],
       [(''abbreviation'', JStr ''DEN''), (''name'', JStr ''Denver Broncos''),
         (''conference'', JStr ''AFC''), (''division'', JStr ''West'')],
       [(''abbreviation'', JStr ''DET''), (''name'', JStr ''Detroit Lions''),
         (''conference'', JStr ''NFC''), (''division'', JStr ''North'')],
       [(''abbreviation'', JStr ''GB''), (''name'', JStr ''Green Bay Packers''),
         (''conference'', JStr ''NFC''), (''division'', JStr ''North'')],
       [(''abbreviation'', JStr ''HOU''), (''name'', JStr ''Houston Texans''),
         (''conference'', JStr ''AFC''), (''division'', JStr ''South'')],
       [(''abbreviation'', JStr ''IND''), (''name'', JStr ''Indianapolis Colts''),
         (''conference'', JStr ''AFC''), (''division'', JStr ''South'')],
       [(''abbreviation'', JStr ''JAX''), (''name'', JStr ''Jacksonville Jaguars''),
         (''conference'', JStr ''AFC''), (''division'', JStr ''South'')],
       [(''abbreviation'', JStr ''KC''), (''name'', JStr ''Kansas City Chiefs''),
         (''conference'', JStr ''AFC''), (''division'', JStr ''West'')],
       [(''abbreviation'', JStr ''LV''), (''name'', JStr ''Las Vegas Raiders''),
         (''conference'', JStr ''AFC''), (''division'', JStr ''West'')],
       [(''abbreviation'', JStr ''LAC''), (''name'', JStr ''Los Angeles Chargers''),
         (''conference'', JStr ''AFC''), (''division'', JStr ''West'')],
       [(''abbreviation'', JStr ''LAR''), (''name'', JStr ''Los Angeles Rams''),
         (''conference'', JStr ''NFC''), (''division'', JStr ''West'')],
       [(''abbreviation'', JStr ''MIA''), (''name'', JStr ''Miami Dolphins''),
         (''conference'', JStr ''AFC''), (''division'', JStr ''East'')],
       [(''abbreviation'', JStr ''MIN''), (''name'', JStr ''Minnesota Vikings''),
         (''conference'', JStr ''NFC''), (''division'', JStr ''North'')],
       [(''abbreviation'', JStr ''NE''), (''name'', JStr ''New England Patriots''),
         (''conference'', JStr ''AFC''), (''division'', JStr ''East'')],
       [(''abbreviation'', JStr ''NO''), (''name'', JStr ''New Orleans Saints''),
         (''conference'', JStr ''NFC''), (''division'', JStr ''South'')],
       [(''abbreviation'', JStr ''NYG''), (''name'', JStr ''New York Giants''),
         (''conference'', JStr ''NFC''), (''division'', JStr ''East'')],
       [(''abbreviation'', JStr ''NYJ''), (''name'', JStr ''New York Jets''),
         (''conference'', JStr ''AFC''), (''division'', JStr ''East'')],
       [(''abbreviation'', JStr ''PHI''), (''name'', JStr ''Philadelphia Eagles''),
         (''conference'', JStr ''NFC''), (''division'', JStr ''East'')],
       [(''abbreviation'', JStr ''PIT''), (''name'', JStr ''Pittsburgh Steelers''),
         (''conference'', JStr ''AFC''), (''division'', JStr ''North'')],
       [(''abbreviation'', JStr ''SF''), (''name'', JStr ''San Francisco 49ers''),
         (''conference'', JStr ''NFC''), (''division'', JStr ''West'')],
       [(''abbreviation'', JStr ''SEA''), (''name'', JStr ''Seattle Seahawks''),
         (''conference'', JStr ''NFC''), (''division'', JStr ''West'')],
       [(''abbreviation'', JStr ''TB''), (''name'', JStr ''Tampa Bay Buccaneers''),
         (''conference'', JStr ''NFC''), (''division'', JStr ''South'')],
       [(''abbreviation'', JStr ''TEN''), (''name'', JStr ''Tennessee Titans''),
         (''conference'', JStr ''AFC''), (''division'', JStr ''South'')],
       [(''abbreviation'', JStr ''WAS''), (''name'', JStr ''Washington Commanders''),
         (''conference'', JStr ''NFC''), (''division'', JStr ''East'')]]"

definition sample_players :: "py_dict list" where
  "sample_players =
     [[(''player_id'', JStr ''mahomes_patrick_01''), (''player_name'', JStr ''Patrick Mahomes''),
         (''position'', JStr ''QB''), (''team'', JStr ''KC''), (''jersey_number'', JInt 15),
         (''height'', JStr ''6-3''), (''weight'', JInt 225), (''years_exp'', JInt 7),
         (''college'', JStr ''Texas Tech''), (''status'', JStr ''ACT'')],
       [(''player_id'', JStr ''allen_josh_01''), (''player_name'', JStr ''Josh Allen''),
         (''position'', JStr ''QB''), (''team'', JStr ''BUF''), (''jersey_number'', JInt 17),
         (''height'', JStr ''6-5''), (''weight'', JInt 237), (''years_exp'', JInt 6),
         (''college'', JStr ''Wyoming''), (''status'', JStr ''ACT'')],
       [(''player_id'', JStr ''jackson_lamar_01''), (''player_name'', JStr ''Lamar Jackson''),
         (''position'', JStr ''QB''), (''team'', JStr ''BAL''), (''jersey_number'', JInt 8),
         (''height'', JStr ''6-2''), (''weight'', JInt 212), (''years_exp'', JInt 6),
         (''college'', JStr ''Louisville''), (''status'', JStr ''ACT'')],
       [(''player_id'', JStr ''mccaffrey_christian_01''),
         (''player_name'', JStr ''Christian McCaffrey''), (''position'', JStr ''RB''),
         (''team'', JStr ''SF''), (''jersey_number'', JInt 23), (''height'', JStr ''5-11''),
         (''weight'', JInt 205), (''years_exp'', JInt 7), (''college'', JStr ''Stanford''),
         (''status'', JStr ''ACT'')],
       [(''player_id'', JStr ''hill_tyreek_01''), (''player_name'', JStr ''Tyreek Hill''),
         (''position'', JStr ''WR''), (''team'', JStr ''MIA''), (''jersey_number'', JInt 10),
         (''height'', JStr ''5-10''), (''weight'', JInt 185), (''years_exp'', JInt 8),
         (''college'', JStr ''West Alabama''), (''status'', JStr ''ACT'')],
       [(''player_id'', JStr ''kelce_travis_01''), (''player_name'', JStr ''Travis Kelce''),
         (''position'', JStr ''TE''), (''team'', JStr ''KC''), (''jersey_number'', JInt 87),
         (''height'', JStr ''6-5''), (''weight'', JInt 250), (''years_exp'', JInt 11),
         (''college'', JStr ''Cincinnati''), (''status'', JStr ''ACT'')],
       [(''player_id'', JStr ''tucker_justin_01''), (''player_name'', JStr ''Justin Tucker''),
         (''position'', JStr ''K''), (''team'', JStr ''BAL''), (''jersey_number'', JInt 9),
         (''height'', JStr ''6-1''), (''weight'', JInt 183), (''years_exp'', JInt 12),
         (''college'', JStr ''Texas''), (''status'', JStr ''ACT'')]]"

definition passing_stats :: "py_dict list" where
  "passing_stats =
     [[(''player_id'', JStr ''mahomes_patrick_01''), (''player_name'', JStr ''Patrick Mahomes''),
         (''position'', JStr ''QB''), (''team'', JStr ''KC''), (''week'', JInt 1),
         (''season'', JInt 2024), (''completions'', JInt 28), (''attempts'', JInt 42),
         (''passing_yards'', JInt 378), (''passing_tds'', JInt 4), (''interceptions'', JInt 1)],
       [(''player_id'', JStr ''allen_josh_01''), (''player_name'', JStr ''Josh Allen''),
         (''position'', JStr ''QB''), (''team'', JStr ''BUF''), (''week'', JInt 1),
         (''season'', JInt 2024), (''completions'', JInt 22), (''attempts'', JInt 35),
         (''passing_yards'', JInt 295), (''passing_tds'', JInt 2), (''interceptions'', JInt 0)]]"

definition rushing_stats :: "py_dict list" where
  "rushing_stats =
     [[(''player_id'', JStr ''mccaffrey_christian_01''),
         (''player_name'', JStr ''Christian McCaffrey''), (''position'', JStr ''RB''),
         (''team'', JStr ''SF''), (''week'', JInt 1), (''season'', JInt 2024),
         (''carries'', JInt 22), (''rushing_yards'', JInt 147), (''rushing_tds'', JInt 2)]]"

definition receiving_stats :: "py_dict list" where
  "receiving_stats =
     [[(''player_id'', JStr ''hill_tyreek_01''), (''player_name'', JStr ''Tyreek Hill''),
         (''position'', JStr ''WR''), (''team'', JStr ''MIA''), (''week'', JInt 1),
         (''season'', JInt 2024), (''targets'', JInt 12), (''receptions'', JInt 8),
         (''receiving_yards'', JInt 156), (''receiving_tds'', JInt 2)],
       [(''player_id'', JStr ''kelce_travis_01''), (''player_name'', JStr ''Travis Kelce''),
         (''position'', JStr ''TE''), (''team'', JStr ''KC''), (''week'', JInt 1),
         (''season'', JInt 2024), (''targets'', JInt 10), (''receptions'', JInt 7),
         (''receiving_yards'', JInt 89), (''receiving_tds'', JInt 1)]]"

definition historical_data :: "string \<Rightarrow> py_dict" where
  "historical_data created_at =
     [(''weekly_stats'', JArr
        [JObj [(''player_id'', JStr ''mahomes_patrick_01''), (''week'', JInt 1),
               (''season'', JInt 2024), (''fantasy_points_half_ppr'', JFloat ''28.5'')],
         JObj [(''player_id'', JStr ''mahomes_patrick_01''), (''week'', JInt 2),
                (''season'', JInt 2024), (''fantasy_points_half_ppr'', JFloat ''22.3'')],
         JObj [(''player_id'', JStr ''mahomes_patrick_01''), (''week'', JInt 3),
                (''season'', JInt 2024), (''fantasy_points_half_ppr'', JFloat ''31.7'')]]),
      (''seasonal_stats'', JArr
        [JObj [(''player_id'', JStr ''mahomes_patrick_01''), (''season'', JInt 2023),
               (''passing_yards'', JInt 4183), (''passing_tds'', JInt 27)],
         JObj [(''player_id'', JStr ''allen_josh_01''), (''season'', JInt 2023),
                (''passing_yards'', JInt 4306), (''passing_tds'', JInt 29)]]),
      (''metadata'', JObj
        [(''created_at'', JStr created_at),
         (''seasons'', JArr [JInt 2023, JInt 2024]),
         (''description'', JStr ''Sample dataset for projection modeling'')])]"

definition fetch_teams_data ::
  "'w env \<Rightarrow> simple_fetcher \<Rightarrow> 'w state \<Rightarrow> (py_raise + py_dict list) \<times> 'w state" where
  "fetch_teams_data env self s =
     (let s0 = py_print ''Fetching NFL teams data...'' s;
          output_path = simple_output_dir self @ ''/teams.json''
      in bind (write_call env output_path (JArr (map JObj teams)) s0) (\<lambda>_ s1.
           (Inr teams,
            py_print (''Saved '' @ str_nat (length teams) @ '' teams to '' @ output_path) s1)))"

definition create_sample_rosters ::
  "'w env \<Rightarrow> simple_fetcher \<Rightarrow> 'w state \<Rightarrow> (py_raise + py_dict list) \<times> 'w state" where
  "create_sample_rosters env self s =
     (let s0 = py_print ''Creating sample roster data...'' s;
          output_path = simple_output_dir self @ ''/rosters_2024.json''
      in bind (write_call env output_path (JArr (map JObj sample_players)) s0) (\<lambda>_ s1.
           (Inr sample_players,
            py_print (''Created sample roster with '' @ str_nat (length sample_players)
                      @ '' players at '' @ output_path) s1)))"

text \<open>The loop \<^verbatim>\<open>for filename, stats in stats_files\<close> of
  \<^verbatim>\<open>create_sample_stats\<close>.\<close>

fun save_stats_files ::
  "'w env \<Rightarrow> simple_fetcher \<Rightarrow> (string \<times> py_dict list) list \<Rightarrow> 'w state \<Rightarrow>
   (py_raise + unit) \<times> 'w state" where
  "save_stats_files env self [] s = (Inr (), s)"
| "save_stats_files env self ((filename, stats) # rest) s =
     (let output_path = simple_output_dir self @ ''/'' @ filename
      in bind (write_call env output_path (JArr (map JObj stats)) s) (\<lambda>_ s1.
           save_stats_files env self rest
             (py_print (''Saved '' @ str_nat (length stats) @ '' stat records to ''
                        @ output_path) s1)))"

definition create_sample_stats ::
  "'w env \<Rightarrow> simple_fetcher \<Rightarrow> 'w state \<Rightarrow> (py_raise + py_dict) \<times> 'w state" where
  "create_sample_stats env self s =
     (let s0 = py_print ''Creating sample statistics data...'' s;
          stats_files =
            [(''passing_stats_2024.json'', passing_stats),
             (''rushing_stats_2024.json'', rushing_stats),
             (''receiving_stats_2024.json'', receiving_stats)]
      in bind (save_stats_files env self stats_files s0) (\<lambda>_ s1.
           (Inr [(''passing'', JArr (map JObj passing_stats)),
                 (''rushing'', JArr (map JObj rushing_stats)),
                 (''receiving'', JArr (map JObj receiving_stats))], s1)))"

definition create_projection_dataset ::
  "'w env \<Rightarrow> simple_fetcher \<Rightarrow> 'w state \<Rightarrow> (py_raise + py_dict) \<times> 'w state" where
  "create_projection_dataset env self s =
     (let s0 = py_print ''Creating projection dataset...'' s;
          (created_at, s1) = now_call env s0;
          output_path = simple_output_dir self @ ''/projection_dataset.json''
      in bind (write_call env output_path (JObj (historical_data created_at)) s1) (\<lambda>_ s2.
           (Inr (historical_data created_at),
            py_print (''Created projection dataset at '' @ output_path) s2)))"

text \<open>The body of the \<^verbatim>\<open>try\<close> of \<^verbatim>\<open>run_simple_pipeline\<close>.\<close>

definition simple_pipeline_steps ::
  "'w env \<Rightarrow> simple_fetcher \<Rightarrow> 'w state \<Rightarrow> (py_raise + unit) \<times> 'w state" where
  "simple_pipeline_steps env self s =
     bind (fetch_teams_data env self s) (\<lambda>_ s1.
     bind (create_sample_rosters env self s1) (\<lambda>_ s2.
     bind (create_sample_stats env self s2) (\<lambda>_ s3.
     bind (create_projection_dataset env self s3) (\<lambda>_ s4.
       let s5 = py_print ([CHR 0x0A] @ ''Simple NFL data pipeline completed successfully!'') s4;
           s6 = py_print (''All data saved to: '' @ simple_output_dir self) s5;
           s7 = py_print ([CHR 0x0A] @ ''Next steps:'') s6;
           s8 = py_print ''1. Run: npm run nfl-data:transform'' s7;
           s9 = py_print ''2. Your database will be updated with this data'' s8;
           s10 = py_print ''3. Check your app at http://localhost:3000'' s9
       in (Inr (), s10)))))"

text \<open>The handler prints and re-raises (\<^verbatim>\<open>raise\<close> without an argument).\<close>

definition run_simple_pipeline ::
  "'w env \<Rightarrow> simple_fetcher \<Rightarrow> 'w state \<Rightarrow> (py_raise + unit) \<times> 'w state" where
  "run_simple_pipeline env self s =
     (let s0 = py_print (''Starting simple NFL data pipeline...'' @ [CHR 0x0A]) s
      in except_Exception (simple_pipeline_steps env self s0)
           (\<lambda>e s1. (Inl (Exception e), py_print (''Pipeline failed: '' @ e) s1)))"

text \<open>An environment whose disk is full once \<open>k\<close> files are written: the next write
  raises \<^verbatim>\<open>OSError\<close>. Its world counts the writes.\<close>

definition disk_full_env :: "nat \<Rightarrow> nat env" where
  "disk_full_env k =
     \<lparr>requests_post = (\<lambda>n req. (Inr \<lparr>status_code = 201, response_text = ''''\<rparr>, n)),
      nfl_import = (\<lambda>n c. (Inr [], n)),
      write_json = (\<lambda>n path doc.
        (if n < k then None else Some (Exception ''[Errno 28] No space left on device''),
         Suc n)),
      now_isoformat = (\<lambda>n. (''2024-09-08T13:00:00'', n))\<rparr>"

definition example_fetcher :: simple_fetcher where
  "example_fetcher = \<lparr>simple_output_dir = ''data/nfl'', simple_current_season = 2024\<rparr>"

text \<open>
  The writes of a block agree with how it ends: every write but the last succeeded, and
  the block raises exactly when its last write raised, and raises that exception.
\<close>

definition raise_is_last_write ::
  "(string \<times> json \<times> py_raise option) list \<Rightarrow> (py_raise + 'a) \<times> 'w state \<Rightarrow> bool" where
  "raise_is_last_write before m \<longleftrightarrow>
     (\<exists>wx. writes (snd m) = before @ wx \<and>
           (\<forall>x\<in>set (butlast wx). write_outcome x = None) \<and>
           (case fst m of
              Inr v \<Rightarrow> (\<forall>x\<in>set wx. write_outcome x = None)
            | Inl e \<Rightarrow> wx \<noteq> [] \<and> write_outcome (last wx) = Some e))"

section \<open>The uploader over a store of list objects\<close>

text \<open>
  Python passes \<^verbatim>\<open>data\<close> by reference: the caller and the uploader hold the same
  list object, and a slice \<^verbatim>\<open>data[i:j]\<close> is a new list object. To speak about the
  caller's list after the call, the uploader is written once more over a store of list
  objects: addresses below \<open>next_addr\<close> may be allocated, a new object takes the
  address \<open>next_addr\<close>. The libraries get the contents of the lists they are handed
  and have no access to the store.
\<close>

record heap =
  cells :: "nat \<Rightarrow> py_dict list option"
  next_addr :: nat

text \<open>The contents of a list object. A reference held by a running program is allocated;
  the value at a free address is never used.\<close>

definition deref :: "heap \<Rightarrow> nat \<Rightarrow> py_dict list" where
  "deref h a = (case cells h a of Some xs \<Rightarrow> xs | None \<Rightarrow> [])"

definition new_list :: "heap \<Rightarrow> py_dict list \<Rightarrow> nat \<times> heap" where
  "new_list h xs =
     (next_addr h, h\<lparr>cells := (cells h)(next_addr h \<mapsto> xs), next_addr := Suc (next_addr h)\<rparr>)"

fun upload_batches_ref ::
  "'w env \<Rightarrow> string \<Rightarrow> (string \<times> string) list \<Rightarrow> nat \<Rightarrow> nat \<Rightarrow> nat list \<Rightarrow>
   heap \<times> 'w state \<Rightarrow> bool completion \<times> heap \<times> 'w state" where
  "upload_batches_ref env url_v headers_v data batch_size [] (h, s) = (Normal, h, s)"
| "upload_batches_ref env url_v headers_v data batch_size (i # rest) (h, s) =
     (let (batch, h1) = new_list h (py_slice (deref h data) i (i + batch_size));
          (out, s1) = post_call env
                        \<lparr>url = url_v, headers = headers_v, json_body = deref h1 batch\<rparr> s
      in case out of
           Inl e \<Rightarrow> (Raised e, h1, s1)
         | Inr resp \<Rightarrow>
             if status_code resp \<notin> {200, 201}
             then (Returned False, h1,
                   py_print (''Error updating batch '' @ str_nat (i div batch_size + 1) @ '': ''
                             @ response_text resp) s1)
             else upload_batches_ref env url_v headers_v data batch_size rest
                    (h1, py_print (''Updated batch '' @ str_nat (i div batch_size + 1) @ ''/''
                                   @ str_nat ((length (deref h1 data) + batch_size - 1)
                                              div batch_size)) s1))"

definition upload_try_ref ::
  "'w env \<Rightarrow> pipeline \<Rightarrow> string \<Rightarrow> nat \<Rightarrow> heap \<times> 'w state \<Rightarrow>
   (py_raise + bool) \<times> heap \<times> 'w state" where
  "upload_try_ref env self data_type data hs =
     (let headers_v =
            [(''apikey'', the (supabase_key self)),
             (''Authorization'', ''Bearer '' @ the (supabase_key self)),
             (''Content-Type'', ''application/json''),
             (''Prefer'', ''return=minimal'')];
          table_name = dict_get table_mapping data_type data_type;
          url_v = the (supabase_url self) @ ''/rest/v1/'' @ table_name;
          batch_size = 100;
          (c, h1, s1) = upload_batches_ref env url_v headers_v data batch_size
                          (py_range 0 (length (deref (fst hs) data)) batch_size) hs
      in case c of
           Raised e \<Rightarrow> (Inl e, h1, s1)
         | Returned b \<Rightarrow> (Inr b, h1, s1)
         | Normal \<Rightarrow>
             (Inr True, h1,
              py_print (''Successfully updated '' @ str_nat (length (deref h1 data)) @ '' ''
                        @ data_type @ '' records in Supabase'') s1))"

definition update_supabase_database_ref ::
  "'w env \<Rightarrow> pipeline \<Rightarrow> string \<Rightarrow> nat \<Rightarrow> heap \<times> 'w state \<Rightarrow>
   (py_raise + bool) \<times> heap \<times> 'w state" where
  "update_supabase_database_ref env self data_type data hs =
     (if \<not> py_truthy (supabase_url self) \<or> \<not> py_truthy (supabase_key self)
      then (Inr False, fst hs,
            py_print ''Supabase credentials not found, skipping database update'' (snd hs))
      else
        let s0 = py_print (''Updating Supabase with '' @ data_type @ '' data (''
                           @ str_nat (length (deref (fst hs) data)) @ '' records)...'') (snd hs);
            (r, h1, s1) = upload_try_ref env self data_type data (fst hs, s0)
        in case r of
             Inr b \<Rightarrow> (Inr b, h1, s1)
           | Inl (Exception e) \<Rightarrow> (Inr False, h1, py_print (''Error updating Supabase: '' @ e) s1)
           | Inl (BaseException e) \<Rightarrow> (Inl (BaseException e), h1, s1))"

text \<open>A store holding one list, the caller's, at address 0.\<close>

definition caller_heap :: "py_dict list \<Rightarrow> heap" where
  "caller_heap xs = \<lparr>cells = (\<lambda>a. if a = 0 then Some xs else None), next_addr = 1\<rparr>"

section \<open>The loop\<close>

lemma upload_batches_trace:
  "upload_batches env u h data bs idxs s = (c, s') \<Longrightarrow>
   \<exists>ex. posts s' = posts s @ ex \<and> length ex \<le> length idxs \<and>
        map fst ex = map (\<lambda>i. \<lparr>url = u, headers = h, json_body = py_slice data i (i + bs)\<rparr>)
                         (take (length ex) idxs) \<and>
        (\<forall>x\<in>set (butlast ex). batch_ok (snd x)) \<and>
        (case c of
           Normal \<Rightarrow> length ex = length idxs \<and> (\<forall>x\<in>set ex. batch_ok (snd x))
         | Returned b \<Rightarrow> \<not> b \<and> ex \<noteq> [] \<and>
                         (\<exists>r. snd (last ex) = Inr r \<and> status_code r \<notin> {200, 201})
         | Raised e \<Rightarrow> ex \<noteq> [] \<and> snd (last ex) = Inl e)"
proof (induction idxs arbitrary: s)
  case Nil
  then show ?case by simp
next
  case (Cons i rest)
  let ?req = "\<lparr>url = u, headers = h, json_body = py_slice data i (i + bs)\<rparr>"
  obtain out s1 where pc: "post_call env ?req s = (out, s1)"
    by (cases "post_call env ?req s")
  then have p1: "posts s1 = posts s @ [(?req, out)]"
    by (auto simp: post_call_def Let_def split: prod.splits)
  show ?case
  proof (cases out)
    case (Inl e)
    with Cons.prems pc have "c = Raised e" "s' = s1" by simp_all
    with p1 Inl show ?thesis
      by (intro exI[of _ "[(?req, out)]"]) simp
  next
    case (Inr resp)
    show ?thesis
    proof (cases "status_code resp \<in> {200, 201}")
      case False
      with Cons.prems pc Inr have "c = Returned False" "posts s' = posts s1"
        by (auto simp: py_print_def)
      with p1 Inr False show ?thesis
        by (intro exI[of _ "[(?req, out)]"]) simp
    next
      case True
      define s2 where "s2 = py_print (''Updated batch '' @ str_nat (i div bs + 1) @ ''/''
                               @ str_nat ((length data + bs - 1) div bs)) s1"
      from True Cons.prems pc Inr have run: "upload_batches env u h data bs rest s2 = (c, s')"
        by (simp add: s2_def)
      have p2: "posts s2 = posts s1" by (simp add: s2_def py_print_def)
      from Cons.IH[OF run] obtain ex where ex:
        "posts s' = posts s2 @ ex" "length ex \<le> length rest"
        "map fst ex = map (\<lambda>i. \<lparr>url = u, headers = h, json_body = py_slice data i (i + bs)\<rparr>)
                          (take (length ex) rest)"
        "\<forall>x\<in>set (butlast ex). batch_ok (snd x)"
        "(case c of
           Normal \<Rightarrow> length ex = length rest \<and> (\<forall>x\<in>set ex. batch_ok (snd x))
         | Returned b \<Rightarrow> \<not> b \<and> ex \<noteq> [] \<and>
                         (\<exists>r. snd (last ex) = Inr r \<and> status_code r \<notin> {200, 201})
         | Raised e \<Rightarrow> ex \<noteq> [] \<and> snd (last ex) = Inl e)"
        by blast
      have ok: "batch_ok out" using True Inr by (simp add: batch_ok_def)
      show ?thesis
        using ex p1 p2 ok
        by (intro exI[of _ "(?req, out) # ex"]) (auto split: completion.splits)
    qed
  qed
qed

lemma py_range_concat:
  "0 < bs \<Longrightarrow> concat (map (\<lambda>i. py_slice data i (i + bs)) (py_range i0 (length data) bs)) = drop i0 data"
proof (induction i0 "length data" bs rule: py_range.induct)
  case (1 start step)
  show ?case
  proof (cases "start < length data")
    case True
    with 1 have IH: "concat (map (\<lambda>i. py_slice data i (i + step)) (py_range (start + step) (length data) step)) = drop (start + step) data"
      by simp
    have "py_range start (length data) step = start # py_range (start + step) (length data) step"
      using True 1(2) by (subst py_range.simps) simp
    then show ?thesis using IH
      by (simp add: py_slice_def add.commute[of start step] flip: drop_drop)
  next
    case False
    then show ?thesis by (subst py_range.simps) simp
  qed
qed

lemma py_range_mem: "i \<in> set (py_range i0 n bs) \<Longrightarrow> i < n \<and> 0 < bs"
proof (induction i0 n bs rule: py_range.induct)
  case (1 start stop step)
  from 1(2) have c: "0 < step \<and> start < stop"
    by (subst (asm) py_range.simps) (auto split: if_splits)
  with 1(2) have "i = start \<or> i \<in> set (py_range (start + step) stop step)"
    by (subst (asm) py_range.simps) simp
  with 1(1) c show ?case by auto
qed

lemma py_range_nth: "k < length (py_range i0 n bs) \<Longrightarrow> py_range i0 n bs ! k = i0 + k * bs"
proof (induction i0 n bs arbitrary: k rule: py_range.induct)
  case (1 start stop step)
  from 1(2) have c: "0 < step \<and> start < stop"
    by (subst (asm) py_range.simps) (auto split: if_splits)
  then have eq: "py_range start stop step = start # py_range (start + step) stop step"
    by (subst py_range.simps) simp
  show ?case
  proof (cases k)
    case 0
    then show ?thesis by (simp add: eq)
  next
    case (Suc j)
    with 1(2) eq have "j < length (py_range (start + step) stop step)" by simp
    with 1(1) c have "py_range (start + step) stop step ! j = start + step + j * step" by simp
    then show ?thesis by (simp add: eq Suc)
  qed
qed

lemma batches_concat: "concat (batches data) = data"
  using py_range_concat[of 100 data 0] by (simp add: batches_def)

lemma batches_bounds: "b \<in> set (batches data) \<Longrightarrow> b \<noteq> [] \<and> length b \<le> 100"
  by (auto simp: batches_def py_slice_def dest: py_range_mem)

lemma batches_nth: "k < length (batches data) \<Longrightarrow> batches data ! k = py_slice data (100 * k) (100 * k + 100)"
  by (simp add: batches_def py_range_nth mult.commute)

lemma upload_try_trace:
  assumes run: "upload_try env self dt data s = (r, s')"
  shows "\<exists>ex. posts s' = posts s @ ex \<and> length ex \<le> length (batches data) \<and>
          map fst ex = map (upload_request self dt) (take (length ex) (batches data)) \<and>
          (\<forall>x\<in>set (butlast ex). batch_ok (snd x)) \<and>
          (r = Inr True \<longrightarrow> length ex = length (batches data) \<and> (\<forall>x\<in>set ex. batch_ok (snd x))) \<and>
          (r = Inr False \<longrightarrow> ex \<noteq> [] \<and> (\<exists>resp. snd (last ex) = Inr resp \<and> status_code resp \<notin> {200, 201})) \<and>
          (\<forall>e. r = Inl e \<longrightarrow> ex \<noteq> [] \<and> snd (last ex) = Inl e)"
proof -
  let ?u = "the (supabase_url self) @ ''/rest/v1/'' @ dict_get table_mapping dt dt"
  let ?h = "[(''apikey'', the (supabase_key self)),
             (''Authorization'', ''Bearer '' @ the (supabase_key self)),
             (''Content-Type'', ''application/json''),
             (''Prefer'', ''return=minimal'')]"
  obtain c s1 where loop: "upload_batches env ?u ?h data 100 (py_range 0 (length data) 100) s = (c, s1)"
    by (cases "upload_batches env ?u ?h data 100 (py_range 0 (length data) 100) s")
  from upload_batches_trace[OF loop] obtain ex where ex:
    "posts s1 = posts s @ ex" "length ex \<le> length (py_range 0 (length data) 100)"
    "map fst ex = map (\<lambda>i. \<lparr>url = ?u, headers = ?h, json_body = py_slice data i (i + 100)\<rparr>)
                      (take (length ex) (py_range 0 (length data) 100))"
    "\<forall>x\<in>set (butlast ex). batch_ok (snd x)"
    "(case c of
        Normal \<Rightarrow> length ex = length (py_range 0 (length data) 100) \<and> (\<forall>x\<in>set ex. batch_ok (snd x))
      | Returned b \<Rightarrow> \<not> b \<and> ex \<noteq> [] \<and>
                      (\<exists>r. snd (last ex) = Inr r \<and> status_code r \<notin> {200, 201})
      | Raised e \<Rightarrow> ex \<noteq> [] \<and> snd (last ex) = Inl e)"
    by blast
  from run loop have r: "r = (case c of Raised e \<Rightarrow> Inl e | Returned b \<Rightarrow> Inr b | Normal \<Rightarrow> Inr True)"
    and p: "posts s' = posts s1"
    by (auto simp: upload_try_def Let_def py_print_def split: completion.splits)
  have m: "map fst ex = map (upload_request self dt) (take (length ex) (batches data))"
    using ex(3) by (simp add: batches_def upload_request_def take_map o_def)
  show ?thesis
    using ex(1,2,4,5) m r p
    by (intro exI[of _ ex]) (auto simp: batches_def split: completion.splits)
qed


lemma update_trace:
  assumes creds: "py_truthy (supabase_url self)" "py_truthy (supabase_key self)"
    and run: "update_supabase_database env self dt data s = (r, s')"
  shows "posts s' = posts s @ new_posts s s'"
    and "length (new_posts s s') \<le> length (batches data)"
    and "map fst (new_posts s s') =
           map (upload_request self dt) (take (length (new_posts s s')) (batches data))"
    and "\<forall>x\<in>set (butlast (new_posts s s')). batch_ok (snd x)"
    and "r = Inr True \<longrightarrow> length (new_posts s s') = length (batches data) \<and>
                           (\<forall>x\<in>set (new_posts s s'). batch_ok (snd x))"
    and "r = Inr False \<longrightarrow> new_posts s s' \<noteq> [] \<and>
           ((\<exists>resp. snd (last (new_posts s s')) = Inr resp \<and> status_code resp \<notin> {200, 201}) \<or>
            (\<exists>m. snd (last (new_posts s s')) = Inl (Exception m) \<and>
                 stdout s' \<noteq> [] \<and> last (stdout s') = ''Error updating Supabase: '' @ m))"
    and "\<forall>e. r = Inl e \<longrightarrow> new_posts s s' \<noteq> [] \<and> snd (last (new_posts s s')) = Inl e \<and>
                            (\<exists>m. e = BaseException m)"
proof -
  define s0 where "s0 = py_print (''Updating Supabase with '' @ dt @ '' data (''
                           @ str_nat (length data) @ '' records)...'') s"
  obtain r1 s1 where t: "upload_try env self dt data s0 = (r1, s1)"
    by (cases "upload_try env self dt data s0")
  have p0: "posts s0 = posts s" by (simp add: s0_def py_print_def)
  from upload_try_trace[OF t] p0 obtain ex where ex:
    "posts s1 = posts s @ ex" "length ex \<le> length (batches data)"
    "map fst ex = map (upload_request self dt) (take (length ex) (batches data))"
    "\<forall>x\<in>set (butlast ex). batch_ok (snd x)"
    "r1 = Inr True \<longrightarrow> length ex = length (batches data) \<and> (\<forall>x\<in>set ex. batch_ok (snd x))"
    "r1 = Inr False \<longrightarrow> ex \<noteq> [] \<and> (\<exists>resp. snd (last ex) = Inr resp \<and> status_code resp \<notin> {200, 201})"
    "\<forall>e. r1 = Inl e \<longrightarrow> ex \<noteq> [] \<and> snd (last ex) = Inl e"
    by auto
  from run creds t have res:
    "(r, s') = (case r1 of
                  Inr b \<Rightarrow> (Inr b, s1)
                | Inl (Exception e) \<Rightarrow> (Inr False, py_print (''Error updating Supabase: '' @ e) s1)
                | Inl (BaseException e) \<Rightarrow> (Inl (BaseException e), s1))"
    by (simp add: update_supabase_database_def Let_def s0_def)
  then have p: "posts s' = posts s1"
    by (auto simp: py_print_def split: sum.splits py_raise.splits)
  with ex(1) have np: "new_posts s s' = ex" by (simp add: new_posts_def)
  show "posts s' = posts s @ new_posts s s'" using p ex(1) np by simp
  show "length (new_posts s s') \<le> length (batches data)" using ex(2) np by simp
  show "map fst (new_posts s s') =
           map (upload_request self dt) (take (length (new_posts s s')) (batches data))"
    using ex(3) np by simp
  show "\<forall>x\<in>set (butlast (new_posts s s')). batch_ok (snd x)" using ex(4) np by simp
  show "r = Inr True \<longrightarrow> length (new_posts s s') = length (batches data) \<and>
                           (\<forall>x\<in>set (new_posts s s'). batch_ok (snd x))"
    using res ex(5) np by (auto split: sum.splits py_raise.splits)
  show "r = Inr False \<longrightarrow> new_posts s s' \<noteq> [] \<and>
           ((\<exists>resp. snd (last (new_posts s s')) = Inr resp \<and> status_code resp \<notin> {200, 201}) \<or>
            (\<exists>m. snd (last (new_posts s s')) = Inl (Exception m) \<and>
                 stdout s' \<noteq> [] \<and> last (stdout s') = ''Error updating Supabase: '' @ m))"
    using res ex(6,7) np by (auto simp: py_print_def split: sum.splits py_raise.splits)
  show "\<forall>e. r = Inl e \<longrightarrow> new_posts s s' \<noteq> [] \<and> snd (last (new_posts s s')) = Inl e \<and>
                            (\<exists>m. e = BaseException m)"
    using res ex(7) np by (auto split: sum.splits py_raise.splits)
qed

lemma only_last_fails:
  assumes "\<forall>x\<in>set (butlast ex). P x" and "k < length ex" and "\<not> P (ex ! k)"
  shows "Suc k = length ex"
proof (rule ccontr)
  assume "Suc k \<noteq> length ex"
  with assms(2) have k: "k < length (butlast ex)" by simp
  then have a: "butlast ex ! k \<in> set (butlast ex)" by (rule nth_mem)
  from k have "butlast ex ! k = ex ! k" by (simp add: nth_butlast)
  with a assms(1,3) show False by auto
qed

lemma update_all_ok:
  assumes creds: "py_truthy (supabase_url self)" "py_truthy (supabase_key self)"
    and run: "update_supabase_database env self dt data s = (r, s')"
    and ok: "\<forall>x\<in>set (new_posts s s'). batch_ok (snd x)"
  shows "r = Inr True" and "map fst (new_posts s s') = map (upload_request self dt) (batches data)"
proof -
  note t = update_trace[OF creds run]
  have last_ok: "new_posts s s' \<noteq> [] \<Longrightarrow> batch_ok (snd (last (new_posts s s')))"
    using ok by simp
  show r: "r = Inr True"
  proof (cases r)
    case (Inl e)
    with t(7) last_ok show ?thesis by (auto simp: batch_ok_def)
  next
    case (Inr b)
    show ?thesis
    proof (cases b)
      case True
      with Inr show ?thesis by simp
    next
      case False
      with Inr t(6) last_ok show ?thesis by (auto simp: batch_ok_def)
    qed
  qed
  with t(5) have "length (new_posts s s') = length (batches data)" by simp
  with t(3) show "map fst (new_posts s s') = map (upload_request self dt) (batches data)" by simp
qed

lemma update_failure_at:
  assumes creds: "py_truthy (supabase_url self)" "py_truthy (supabase_key self)"
    and run: "update_supabase_database env self dt data s = (r, s')"
    and k: "k < length (new_posts s s')" and bad: "\<not> batch_ok (snd (new_posts s s' ! k))"
  shows "Suc k = length (new_posts s s')" and "snd (last (new_posts s s')) = snd (new_posts s s' ! k)"
    and "r \<noteq> Inr True"
proof -
  note t = update_trace[OF creds run]
  show l: "Suc k = length (new_posts s s')"
    using only_last_fails[where P = "\<lambda>x. batch_ok (snd x)", OF t(4) k bad] .
  from k have "new_posts s s' \<noteq> []" by auto
  then have "last (new_posts s s') = new_posts s s' ! (length (new_posts s s') - 1)"
    by (rule last_conv_nth)
  also have "length (new_posts s s') - 1 = k" using l by simp
  finally show "snd (last (new_posts s s')) = snd (new_posts s s' ! k)" by simp
  show "r \<noteq> Inr True" using t(5) k bad by auto
qed



lemma update_bad_status:
  assumes creds: "py_truthy (supabase_url self)" "py_truthy (supabase_key self)"
    and run: "update_supabase_database env self dt data s = (r, s')"
    and k: "k < length (new_posts s s')"
    and bad: "snd (new_posts s s' ! k) = Inr resp" "status_code resp \<notin> {200, 201}"
  shows "Suc k = length (new_posts s s')" and "r = Inr False"
proof -
  note t = update_trace[OF creds run]
  from bad have nok: "\<not> batch_ok (snd (new_posts s s' ! k))" by (simp add: batch_ok_def)
  note f = update_failure_at[OF creds run k nok]
  show "Suc k = length (new_posts s s')" by (rule f(1))
  show "r = Inr False"
  proof (cases r)
    case (Inl e)
    with t(7) f(2) bad show ?thesis by simp
  next
    case (Inr b)
    with f(3) show ?thesis by (cases b) simp_all
  qed
qed

lemma update_exception:
  assumes creds: "py_truthy (supabase_url self)" "py_truthy (supabase_key self)"
    and run: "update_supabase_database env self dt data s = (r, s')"
    and k: "k < length (new_posts s s')"
    and exc: "snd (new_posts s s' ! k) = Inl (Exception m)"
  shows "Suc k = length (new_posts s s')" and "r = Inr False"
    and "stdout s' \<noteq> []" and "last (stdout s') = ''Error updating Supabase: '' @ m"
proof -
  note t = update_trace[OF creds run]
  from exc have nok: "\<not> batch_ok (snd (new_posts s s' ! k))" by (simp add: batch_ok_def)
  note f = update_failure_at[OF creds run k nok]
  show "Suc k = length (new_posts s s')" by (rule f(1))
  show r: "r = Inr False"
  proof (cases r)
    case (Inl e)
    with t(7) f(2) exc show ?thesis by auto
  next
    case (Inr b)
    with f(3) show ?thesis by (cases b) simp_all
  qed
  with t(6) f(2) exc show "stdout s' \<noteq> []" and "last (stdout s') = ''Error updating Supabase: '' @ m"
    by auto
qed

lemma resource_name_refines: "dict_get table_mapping data_type data_type = spec_resource_name data_type"
  by (simp add: dict_get_def table_mapping_def spec_resource_name_def)

subsection \<open>Evaluating the uploader on the concrete inputs\<close>

lemma py_range_250: "py_range 0 250 100 = [0, 100, 200]"
  by (simp add: py_range.simps)

lemma py_range_small: "py_range 0 0 100 = []" "py_range 0 2 100 = [0]"
  by (simp_all add: py_range.simps)

lemma str_nat_values:
  "str_nat 0 = ''0''" "str_nat 1 = ''1''" "str_nat (Suc 0) = ''1''" "str_nat 2 = ''2''"
  "str_nat (Suc (Suc 0)) = ''2''" "str_nat 3 = ''3''" "str_nat 250 = ''250''"
  by (simp_all add: str_nat.simps)

lemmas run_defs =
  update_supabase_database_def example_pipeline_def upload_try_def Let_def py_range_250
  py_range_small numbered_records_def scripted_env_def start_state_def post_call_def
  py_print_def py_slice_def str_nat_values dict_get_def table_mapping_def take_map drop_map
  upload_request_def

lemma run_all_succeed:
  "update_supabase_database (scripted_env []) example_pipeline ''players''
     (numbered_records 250) start_state =
   (Inr True,
    \<lparr>world = 3,
     stdout = [''Updating Supabase with players data (250 records)...'',
               ''Updated batch 1/3'', ''Updated batch 2/3'', ''Updated batch 3/3'',
               ''Successfully updated 250 players records in Supabase''],
     posts = [(upload_request example_pipeline ''players'' (map player_record [0..<100]),
               Inr \<lparr>status_code = 201, response_text = ''''\<rparr>),
              (upload_request example_pipeline ''players'' (map player_record [100..<200]),
               Inr \<lparr>status_code = 201, response_text = ''''\<rparr>),
              (upload_request example_pipeline ''players'' (map player_record [200..<250]),
               Inr \<lparr>status_code = 201, response_text = ''''\<rparr>)],
     import_log = [], writes = []\<rparr>)"
  by (simp add: run_defs)

lemma run_second_rejected:
  "update_supabase_database
     (scripted_env [Inr \<lparr>status_code = 200, response_text = ''''\<rparr>,
                    Inr \<lparr>status_code = 500, response_text = ''boom''\<rparr>])
     example_pipeline ''players'' (numbered_records 250) start_state =
   (Inr False,
    \<lparr>world = 2,
     stdout = [''Updating Supabase with players data (250 records)...'',
               ''Updated batch 1/3'', ''Error updating batch 2: boom''],
     posts = [(upload_request example_pipeline ''players'' (map player_record [0..<100]),
               Inr \<lparr>status_code = 200, response_text = ''''\<rparr>),
              (upload_request example_pipeline ''players'' (map player_record [100..<200]),
               Inr \<lparr>status_code = 500, response_text = ''boom''\<rparr>)],
     import_log = [], writes = []\<rparr>)"
  by (simp add: run_defs)

lemma run_second_raises:
  "update_supabase_database
     (scripted_env [Inr \<lparr>status_code = 201, response_text = ''''\<rparr>,
                    Inl (Exception ''connection reset'')])
     example_pipeline ''players'' (numbered_records 250) start_state =
   (Inr False,
    \<lparr>world = 2,
     stdout = [''Updating Supabase with players data (250 records)...'',
               ''Updated batch 1/3'', ''Error updating Supabase: connection reset''],
     posts = [(upload_request example_pipeline ''players'' (map player_record [0..<100]),
               Inr \<lparr>status_code = 201, response_text = ''''\<rparr>),
              (upload_request example_pipeline ''players'' (map player_record [100..<200]),
               Inl (Exception ''connection reset''))],
     import_log = [], writes = []\<rparr>)"
  by (simp add: run_defs)

lemma run_unknown_data_type:
  "update_supabase_database (scripted_env []) example_pipeline ''schedule''
     (numbered_records 2) start_state =
   (Inr True,
    \<lparr>world = 1,
     stdout = [''Updating Supabase with schedule data (2 records)...'',
               ''Updated batch 1/1'', ''Successfully updated 2 schedule records in Supabase''],
     posts = [(upload_request example_pipeline ''schedule'' (map player_record [0..<2]),
               Inr \<lparr>status_code = 201, response_text = ''''\<rparr>)],
     import_log = [], writes = []\<rparr>)"
  by (simp add: run_defs)

lemma run_no_records:
  "update_supabase_database (scripted_env []) example_pipeline ''players'' [] start_state =
   (Inr True,
    \<lparr>world = 0,
     stdout = [''Updating Supabase with players data (0 records)...'',
               ''Successfully updated 0 players records in Supabase''],
     posts = [], import_log = [], writes = []\<rparr>)"
  by (simp add: run_defs)

lemma run_without_key:
  "update_supabase_database (scripted_env []) (example_pipeline\<lparr>supabase_key := None\<rparr>)
     ''players'' (numbered_records 250) start_state =
   (Inr False,
    \<lparr>world = 0,
     stdout = [''Supabase credentials not found, skipping database update''],
     posts = [], import_log = [], writes = []\<rparr>)"
  by (simp add: run_defs)

lemma example_credentials:
  "py_truthy (supabase_url example_pipeline)" "py_truthy (supabase_key example_pipeline)"
  by (simp_all add: example_pipeline_def)

lemma start_state_posts: "posts start_state = []"
  by (simp add: start_state_def)

section \<open>Properties of the batch uploader\<close>

text \<open>
  C1. For every input record sequence, the batches formed by the uploader are consecutive
  slices of at most 100 records each, and their concatenation, in the order they are
  sent, equals the original input sequence exactly. The slices the loop enumerates
  concatenate to the input; the \<open>k\<close>-th is \<^verbatim>\<open>data[100k : 100k + 100]\<close>, not empty
  and of at most 100 records; the bodies of the requests a run issues are these slices
  in order, all of them when the run returns \<open>True\<close>.
\<close>

theorem batches_partition_input:
  assumes "py_truthy (supabase_url self)" and "py_truthy (supabase_key self)"
    and "update_supabase_database env self data_type data s = (r, s')"
  shows "concat (batches data) = data \<and>
         (\<forall>k<length (batches data).
            batches data ! k = py_slice data (100 * k) (100 * k + 100) \<and>
            batches data ! k \<noteq> [] \<and> length (batches data ! k) \<le> 100) \<and>
         map (json_body \<circ> fst) (new_posts s s') = take (length (new_posts s s')) (batches data) \<and>
         (r = Inr True \<longrightarrow> concat (map (json_body \<circ> fst) (new_posts s s')) = data)"
proof -
  note t = update_trace[OF assms]
  have a: "concat (batches data) = data" by (rule batches_concat)
  have b: "\<forall>k<length (batches data).
            batches data ! k = py_slice data (100 * k) (100 * k + 100) \<and>
            batches data ! k \<noteq> [] \<and> length (batches data ! k) \<le> 100"
  proof (intro allI impI)
    fix k assume k: "k < length (batches data)"
    then have "batches data ! k \<in> set (batches data)" by (rule nth_mem)
    from batches_bounds[OF this] batches_nth[OF k]
    show "batches data ! k = py_slice data (100 * k) (100 * k + 100) \<and>
            batches data ! k \<noteq> [] \<and> length (batches data ! k) \<le> 100" by simp
  qed
  have "map json_body (map fst (new_posts s s')) = take (length (new_posts s s')) (batches data)"
    unfolding t(3) by (simp add: upload_request_def o_def)
  then have c: "map (json_body \<circ> fst) (new_posts s s') = take (length (new_posts s s')) (batches data)"
    by simp
  have d: "r = Inr True \<longrightarrow> concat (map (json_body \<circ> fst) (new_posts s s')) = data"
    using c t(5) a by simp
  from a b c d show ?thesis by blast
qed

theorem batches_partition_input_witness:
  "py_truthy (supabase_url example_pipeline) \<and> py_truthy (supabase_key example_pipeline) \<and>
   fst (update_supabase_database (scripted_env []) example_pipeline ''players''
          (numbered_records 250) start_state) = Inr True \<and>
   batches (numbered_records 250) =
     [map player_record [0..<100], map player_record [100..<200], map player_record [200..<250]] \<and>
   concat (map (json_body \<circ> fst)
             (new_posts start_state
                (snd (update_supabase_database (scripted_env []) example_pipeline ''players''
                        (numbered_records 250) start_state)))) = numbered_records 250"
proof -
  have b: "batches (numbered_records 250) =
     [map player_record [0..<100], map player_record [100..<200], map player_record [200..<250]]"
    by (simp add: batches_def py_range_250 py_slice_def numbered_records_def take_map drop_map)
  note th = batches_partition_input[OF example_credentials run_all_succeed]
  show ?thesis
    unfolding run_all_succeed fst_conv snd_conv
    using th b example_credentials by blast
qed

text \<open>
  C2. With credentials present, a batch counts as successful iff its response status is
  200 or 201; on the first batch whose status is neither, the uploader issues no further
  request and returns \<open>False\<close>; if every batch's status is 200 or 201 it returns
  \<open>True\<close>, having sent every batch. The requests issued are the batches in order; a
  response with another status is the last exchange of the run.
\<close>

theorem upload_stops_at_first_failed_batch:
  assumes "py_truthy (supabase_url self)" and "py_truthy (supabase_key self)"
    and "update_supabase_database env self data_type data s = (r, s')"
  shows "(\<forall>resp. batch_ok (Inr resp) \<longleftrightarrow> status_code resp = 200 \<or> status_code resp = 201) \<and>
         map fst (new_posts s s') =
           map (upload_request self data_type) (take (length (new_posts s s')) (batches data)) \<and>
         (\<forall>k<length (new_posts s s'). \<forall>resp.
            snd (new_posts s s' ! k) = Inr resp \<and> status_code resp \<notin> {200, 201} \<longrightarrow>
            Suc k = length (new_posts s s') \<and> r = Inr False) \<and>
         ((\<forall>x\<in>set (new_posts s s'). batch_ok (snd x)) \<longrightarrow>
            r = Inr True \<and> length (new_posts s s') = length (batches data))"
proof -
  note t = update_trace[OF assms]
  have a: "\<forall>resp. batch_ok (Inr resp) \<longleftrightarrow> status_code resp = 200 \<or> status_code resp = 201"
    by (simp add: batch_ok_def)
  have c: "\<forall>k<length (new_posts s s'). \<forall>resp.
            snd (new_posts s s' ! k) = Inr resp \<and> status_code resp \<notin> {200, 201} \<longrightarrow>
            Suc k = length (new_posts s s') \<and> r = Inr False"
    using update_bad_status[OF assms] by blast
  have d: "(\<forall>x\<in>set (new_posts s s'). batch_ok (snd x)) \<longrightarrow>
            r = Inr True \<and> length (new_posts s s') = length (batches data)"
    using update_all_ok(1)[OF assms] t(5) by blast
  from a t(3) c d show ?thesis by blast
qed

text \<open>An instance: three batches, the second answered with status 500. Two requests are
  issued and the result is \<open>False\<close>.\<close>

theorem upload_stops_at_first_failed_batch_witness:
  "py_truthy (supabase_url example_pipeline) \<and> py_truthy (supabase_key example_pipeline) \<and>
   length (batches (numbered_records 250)) = 3 \<and>
   (\<exists>s'. update_supabase_database
           (scripted_env [Inr \<lparr>status_code = 200, response_text = ''''\<rparr>,
                          Inr \<lparr>status_code = 500, response_text = ''boom''\<rparr>])
           example_pipeline ''players'' (numbered_records 250) start_state = (Inr False, s') \<and>
         snd (new_posts start_state s' ! 1) = Inr \<lparr>status_code = 500, response_text = ''boom''\<rparr> \<and>
         length (new_posts start_state s') = 2 \<and>
         map (json_body \<circ> fst) (new_posts start_state s') =
           [map player_record [0..<100], map player_record [100..<200]])"
proof -
  have b: "length (batches (numbered_records 250)) = 3"
    by (simp add: batches_def py_range_250 numbered_records_def)
  have "1 < length (new_posts start_state (snd (update_supabase_database
           (scripted_env [Inr \<lparr>status_code = 200, response_text = ''''\<rparr>,
                          Inr \<lparr>status_code = 500, response_text = ''boom''\<rparr>])
           example_pipeline ''players'' (numbered_records 250) start_state)))"
    by (simp add: run_second_rejected new_posts_def start_state_posts)
  with upload_stops_at_first_failed_batch[OF example_credentials run_second_rejected] b
  show ?thesis
    by (simp add: example_credentials run_second_rejected new_posts_def start_state_posts
        upload_request_def)
qed

text \<open>
  C3. For every data type and every record sequence (the empty one included), if the
  endpoint base URL or the access key is absent (\<open>None\<close>; the test of the code also
  takes the empty string for absent), the uploader performs no network call and returns
  \<open>False\<close>.
\<close>

theorem upload_without_credentials_is_skipped:
  assumes "supabase_url self = None \<or> supabase_key self = None \<or>
           supabase_url self = Some [] \<or> supabase_key self = Some []"
  shows "fst (update_supabase_database env self data_type data s) = Inr False \<and>
         new_posts s (snd (update_supabase_database env self data_type data s)) = [] \<and>
         posts (snd (update_supabase_database env self data_type data s)) = posts s \<and>
         world (snd (update_supabase_database env self data_type data s)) = world s"
proof -
  from assms have "\<not> py_truthy (supabase_url self) \<or> \<not> py_truthy (supabase_key self)"
    by auto
  then show ?thesis
    by (auto simp: update_supabase_database_def py_print_def new_posts_def)
qed

theorem upload_without_credentials_is_skipped_witness:
  "supabase_key (example_pipeline\<lparr>supabase_key := None\<rparr>) = None \<and>
   fst (update_supabase_database (scripted_env []) (example_pipeline\<lparr>supabase_key := None\<rparr>)
          ''players'' (numbered_records 250) start_state) = Inr False \<and>
   posts (snd (update_supabase_database (scripted_env [])
                 (example_pipeline\<lparr>supabase_key := None\<rparr>)
                 ''players'' (numbered_records 250) start_state)) = []"
  using upload_without_credentials_is_skipped
          [of "example_pipeline\<lparr>supabase_key := None\<rparr>" "scripted_env []" "''players''"
              "numbered_records 250" start_state]
  by (simp add: start_state_def)

text \<open>
  C4. For every data type, the resource name in the URL
  \<^verbatim>\<open>{base_url}/rest/v1/{resource_name}\<close> of every request is the static mapping's
  entry for the data type when there is one (players to nfl_players, stats to
  player_game_stats, projections to player_projections) and the data type itself
  otherwise.
\<close>

theorem upload_url_resource_name:
  assumes "supabase_url self = Some base_url" and "base_url \<noteq> []"
    and "py_truthy (supabase_key self)"
    and "update_supabase_database env self data_type data s = (r, s')"
  shows "(\<forall>x\<in>set (new_posts s s').
            url (fst x) = base_url @ ''/rest/v1/'' @ spec_resource_name data_type) \<and>
         spec_resource_name ''players'' = ''nfl_players'' \<and>
         spec_resource_name ''stats'' = ''player_game_stats'' \<and>
         spec_resource_name ''projections'' = ''player_projections'' \<and>
         (data_type \<notin> {''players'', ''stats'', ''projections''} \<longrightarrow>
            spec_resource_name data_type = data_type)"
proof -
  from assms(1,2) have u: "py_truthy (supabase_url self)" by simp
  note t = update_trace[OF u assms(3,4)]
  have "url (fst x) = base_url @ ''/rest/v1/'' @ spec_resource_name data_type"
    if "x \<in> set (new_posts s s')" for x
  proof -
    from that have "fst x \<in> set (map fst (new_posts s s'))" by simp
    with t(3) obtain b where "fst x = upload_request self data_type b" by auto
    then show ?thesis
      by (simp add: upload_request_def assms(1) resource_name_refines)
  qed
  then show ?thesis by (simp add: spec_resource_name_def)
qed

theorem upload_url_resource_name_witness:
  "supabase_url example_pipeline = Some ''https://example.supabase.co'' \<and>
   py_truthy (supabase_key example_pipeline) \<and>
   ''schedule'' \<notin> {''players'', ''stats'', ''projections''} \<and>
   map (url \<circ> fst)
     (new_posts start_state
        (snd (update_supabase_database (scripted_env []) example_pipeline ''schedule''
                (numbered_records 2) start_state))) =
     [''https://example.supabase.co/rest/v1/schedule'']"
proof -
  have u: "supabase_url example_pipeline = Some ''https://example.supabase.co''"
    by (simp add: example_pipeline_def)
  have n: "''https://example.supabase.co'' \<noteq> []" by simp
  from upload_url_resource_name[OF u n example_credentials(2) run_unknown_data_type]
  show ?thesis
    by (simp add: u example_credentials run_unknown_data_type new_posts_def start_state_posts)
qed

text \<open>
  C5. If a batch write raises a transport-level exception (an instance of
  \<^verbatim>\<open>Exception\<close>, as every exception of \<^verbatim>\<open>requests\<close> is), the uploader
  behaves as for a response that is not 2xx: that request is the last one, the result is
  \<open>False\<close>, the exception is printed and not raised to the caller, and the returned
  value is the one any run with a rejected batch returns.
\<close>

theorem transport_exception_reported_as_failure:
  assumes "py_truthy (supabase_url self)" and "py_truthy (supabase_key self)"
    and "update_supabase_database env self data_type data s = (r, s')"
    and "k < length (new_posts s s')"
    and "snd (new_posts s s' ! k) = Inl (Exception m)"
  shows "r = Inr False \<and> Suc k = length (new_posts s s') \<and>
         last (stdout s') = ''Error updating Supabase: '' @ m \<and>
         (\<forall>env2 self2 data_type2 data2 s2 r2 s2' j resp.
            py_truthy (supabase_url self2) \<and> py_truthy (supabase_key self2) \<and>
            update_supabase_database env2 self2 data_type2 data2 s2 = (r2, s2') \<and>
            j < length (new_posts s2 s2') \<and> snd (new_posts s2 s2' ! j) = Inr resp \<and>
            status_code resp \<notin> {200, 201} \<longrightarrow> r2 = r)"
proof -
  note e = update_exception[OF assms]
  have "r2 = r"
    if "py_truthy (supabase_url self2) \<and> py_truthy (supabase_key self2) \<and>
        update_supabase_database env2 self2 data_type2 data2 s2 = (r2, s2') \<and>
        j < length (new_posts s2 s2') \<and> snd (new_posts s2 s2' ! j) = Inr resp \<and>
        status_code resp \<notin> {200, 201}"
    for env2 :: "'b env" and self2 data_type2 data2 s2 r2 s2' j resp
    using update_bad_status(2)[of self2 env2 data_type2 data2 s2 r2 s2' j resp] that e(2)
    by simp
  with e show ?thesis by blast
qed

theorem transport_exception_reported_as_failure_witness:
  "py_truthy (supabase_url example_pipeline) \<and> py_truthy (supabase_key example_pipeline) \<and>
   (\<exists>s'. update_supabase_database
           (scripted_env [Inr \<lparr>status_code = 201, response_text = ''''\<rparr>,
                          Inl (Exception ''connection reset'')])
           example_pipeline ''players'' (numbered_records 250) start_state = (Inr False, s') \<and>
         snd (new_posts start_state s' ! 1) = Inl (Exception ''connection reset'') \<and>
         length (new_posts start_state s') = 2 \<and>
         last (stdout s') = ''Error updating Supabase: connection reset'')"
proof -
  let ?s' = "snd (update_supabase_database
           (scripted_env [Inr \<lparr>status_code = 201, response_text = ''''\<rparr>,
                          Inl (Exception ''connection reset'')])
           example_pipeline ''players'' (numbered_records 250) start_state)"
  have k: "1 < length (new_posts start_state ?s')"
    by (simp add: run_second_raises new_posts_def start_state_posts)
  have x: "snd (new_posts start_state ?s' ! 1) = Inl (Exception ''connection reset'')"
    by (simp add: run_second_raises new_posts_def start_state_posts)
  from transport_exception_reported_as_failure
         [OF example_credentials run_second_raises k[unfolded run_second_raises snd_conv]
             x[unfolded run_second_raises snd_conv]]
  show ?thesis
    by (simp add: example_credentials run_second_raises new_posts_def start_state_posts)
qed

text \<open>
  C6. For every data type, with credentials present and no record, the uploader performs
  no network call and returns \<open>True\<close>.
\<close>

theorem upload_of_no_records_succeeds:
  assumes "py_truthy (supabase_url self)" and "py_truthy (supabase_key self)"
  shows "fst (update_supabase_database env self data_type [] s) = Inr True \<and>
         new_posts s (snd (update_supabase_database env self data_type [] s)) = [] \<and>
         posts (snd (update_supabase_database env self data_type [] s)) = posts s \<and>
         world (snd (update_supabase_database env self data_type [] s)) = world s"
  using assms
  by (simp add: update_supabase_database_def upload_try_def py_range_small py_print_def
      new_posts_def)

theorem upload_of_no_records_succeeds_witness:
  "py_truthy (supabase_url example_pipeline) \<and> py_truthy (supabase_key example_pipeline) \<and>
   fst (update_supabase_database (scripted_env []) example_pipeline ''players'' [] start_state)
     = Inr True \<and>
   posts (snd (update_supabase_database (scripted_env []) example_pipeline ''players'' []
                 start_state)) = []"
  using upload_of_no_records_succeeds
          [OF example_credentials, of "scripted_env []" "''players''" start_state]
  by (simp add: example_credentials start_state_def)

text \<open>
  C7. With credentials present, 250 records and every response status 200 or 201, the
  uploader issues exactly 3 write calls whose batch sizes are 100, 100 and 50, in this
  order.
\<close>

theorem upload_of_250_records_makes_three_calls:
  assumes "py_truthy (supabase_url self)" and "py_truthy (supabase_key self)"
    and "length data = 250"
    and "update_supabase_database env self data_type data s = (r, s')"
    and "\<forall>x\<in>set (new_posts s s'). batch_ok (snd x)"
  shows "length (new_posts s s') = 3 \<and>
         map (length \<circ> json_body \<circ> fst) (new_posts s s') = [100, 100, 50] \<and>
         r = Inr True"
proof -
  note ok = update_all_ok[OF assms(1,2,4,5)]
  have b: "batches data = [py_slice data 0 100, py_slice data 100 200, py_slice data 200 300]"
    by (simp add: batches_def assms(3) py_range_250)
  have "map (length \<circ> json_body \<circ> fst) (new_posts s s') =
        map (length \<circ> json_body) (map fst (new_posts s s'))" by simp
  also have "\<dots> = map length (batches data)"
    unfolding ok(2) by (simp add: upload_request_def o_def)
  also have "\<dots> = [100, 100, 50]"
    by (simp add: b py_slice_def assms(3))
  finally have sizes: "map (length \<circ> json_body \<circ> fst) (new_posts s s') = [100, 100, 50]" .
  then have "length (map (length \<circ> json_body \<circ> fst) (new_posts s s')) = 3" by simp
  then have "length (new_posts s s') = 3" by simp
  with sizes ok(1) show ?thesis by simp
qed

theorem upload_of_250_records_makes_three_calls_witness:
  "py_truthy (supabase_url example_pipeline) \<and> py_truthy (supabase_key example_pipeline) \<and>
   length (numbered_records 250) = 250 \<and>
   map (snd) (new_posts start_state
     (snd (update_supabase_database (scripted_env []) example_pipeline ''players''
             (numbered_records 250) start_state))) =
     replicate 3 (Inr \<lparr>status_code = 201, response_text = ''''\<rparr>) \<and>
   map (length \<circ> json_body \<circ> fst) (new_posts start_state
     (snd (update_supabase_database (scripted_env []) example_pipeline ''players''
             (numbered_records 250) start_state))) = [100, 100, 50]"
proof -
  have l: "length (numbered_records 250) = 250" by (simp add: numbered_records_def)
  have ok: "\<forall>x\<in>set (new_posts start_state
     (snd (update_supabase_database (scripted_env []) example_pipeline ''players''
             (numbered_records 250) start_state))). batch_ok (snd x)"
    by (simp add: run_all_succeed new_posts_def start_state_posts batch_ok_def)
  from upload_of_250_records_makes_three_calls
         [OF example_credentials l run_all_succeed ok[unfolded run_all_succeed snd_conv]]
  show ?thesis
    by (simp add: example_credentials l run_all_succeed new_posts_def start_state_posts
        numeral_3_eq_3)
qed

section \<open>The fetch steps never raise an \<^verbatim>\<open>Exception\<close>\<close>

lemmas step_defs = except_Exception_def bind_def import_call_def write_call_def py_print_def
  Let_def now_call_def









subsection \<open>Every fetch step catches, prints and returns the empty result\<close>

















subsection \<open>A run in which the roster import fails\<close>



section \<open>Properties of the fetch steps and of the full pipeline\<close>



section \<open>What the steps of the simplified pipeline write\<close>

lemma raise_is_last_write_return:
  "writes s' = before \<Longrightarrow> raise_is_last_write before (Inr v, s')"
  by (simp add: raise_is_last_write_def)

lemma raise_is_last_write_call:
  "writes s = before \<Longrightarrow> raise_is_last_write before (write_call env path doc s)"
  by (auto simp: raise_is_last_write_def write_call_def write_outcome_def Let_def
           split: prod.splits option.splits)

lemma raise_is_last_write_bind:
  assumes m: "raise_is_last_write before m"
    and f: "\<And>v s1. m = (Inr v, s1) \<Longrightarrow> raise_is_last_write (writes s1) (f v s1)"
  shows "raise_is_last_write before (bind m f)"
proof (cases m)
  case (Pair r1 s1)
  show ?thesis
  proof (cases r1)
    case (Inl e)
    with Pair m show ?thesis by (auto simp: bind_def raise_is_last_write_def)
  next
    case (Inr v)
    from m Pair Inr obtain w1 where w1: "writes s1 = before @ w1"
      "\<forall>x\<in>set w1. write_outcome x = None"
      by (auto simp: raise_is_last_write_def)
    from f[of v s1] Pair Inr obtain w2 where w2: "writes (snd (f v s1)) = writes s1 @ w2"
      "\<forall>x\<in>set (butlast w2). write_outcome x = None"
      "case fst (f v s1) of
              Inr v \<Rightarrow> (\<forall>x\<in>set w2. write_outcome x = None)
            | Inl e \<Rightarrow> w2 \<noteq> [] \<and> write_outcome (last w2) = Some e"
      by (auto simp: raise_is_last_write_def)
    have b: "bind m f = f v s1" using Pair Inr by (simp add: bind_def)
    have bl: "\<forall>x\<in>set (butlast (w1 @ w2)). write_outcome x = None"
      using w1(2) w2(2) by (auto simp: butlast_append dest: in_set_butlastD)
    show ?thesis
      unfolding b raise_is_last_write_def
      using w1 w2 bl
      by (intro exI[of _ "w1 @ w2"]) (auto split: sum.splits)
  qed
qed

lemma fetch_teams_data_writes:
  "raise_is_last_write (writes s) (fetch_teams_data env self s)"
  unfolding fetch_teams_data_def Let_def
  by (intro raise_is_last_write_bind raise_is_last_write_call raise_is_last_write_return)
     (simp_all add: py_print_def)

lemma create_sample_rosters_writes:
  "raise_is_last_write (writes s) (create_sample_rosters env self s)"
  unfolding create_sample_rosters_def Let_def
  by (intro raise_is_last_write_bind raise_is_last_write_call raise_is_last_write_return)
     (simp_all add: py_print_def)

lemma raise_is_last_write_after_print:
  "raise_is_last_write (writes (py_print msg s)) m \<Longrightarrow> raise_is_last_write (writes s) m"
  by (simp add: py_print_def)

lemma save_stats_files_writes:
  "raise_is_last_write (writes (s :: 'a state)) (save_stats_files env self files s)"
proof (induction files arbitrary: s)
  case Nil
  show ?case by (simp add: raise_is_last_write_return)
next
  case (Cons f files)
  obtain filename stats where f: "f = (filename, stats)" by (cases f)
  show ?case
    unfolding f save_stats_files.simps Let_def
  proof (rule raise_is_last_write_bind)
    show "raise_is_last_write (writes s)
            (write_call env (simple_output_dir self @ ''/'' @ filename) (JArr (map JObj stats)) s)"
      by (rule raise_is_last_write_call) (rule refl)
  next
    fix v :: unit and s1 :: "'a state"
    show "raise_is_last_write (writes s1)
            (save_stats_files env self files
               (py_print (''Saved '' @ str_nat (length stats) @ '' stat records to ''
                          @ simple_output_dir self @ ''/'' @ filename) s1))"
      by (rule raise_is_last_write_after_print) (rule Cons.IH)
  qed
qed

lemma create_sample_stats_writes:
  "raise_is_last_write (writes s) (create_sample_stats env self s)"
  unfolding create_sample_stats_def Let_def
proof (rule raise_is_last_write_bind)
  show "raise_is_last_write (writes s)
          (save_stats_files env self
             [(''passing_stats_2024.json'', passing_stats),
              (''rushing_stats_2024.json'', rushing_stats),
              (''receiving_stats_2024.json'', receiving_stats)]
             (py_print ''Creating sample statistics data...'' s))"
    by (rule raise_is_last_write_after_print) (rule save_stats_files_writes)
qed (rule raise_is_last_write_return, rule refl)

lemma create_projection_dataset_writes:
  "raise_is_last_write (writes s) (create_projection_dataset env self s)"
  unfolding create_projection_dataset_def Let_def
  by (auto simp: now_call_def py_print_def Let_def split: prod.splits
           intro!: raise_is_last_write_bind raise_is_last_write_call raise_is_last_write_return)

lemma simple_pipeline_steps_writes:
  "raise_is_last_write (writes s) (simple_pipeline_steps env self s)"
  unfolding simple_pipeline_steps_def Let_def
  by (intro raise_is_last_write_bind fetch_teams_data_writes create_sample_rosters_writes
        create_sample_stats_writes create_projection_dataset_writes raise_is_last_write_return)
     (simp add: py_print_def)

section \<open>Properties of the simplified pipeline\<close>

lemma run_simple_pipeline_result:
  assumes "run_simple_pipeline env self s = (r, s')"
  shows "raise_is_last_write (writes s) (r, s')"
    and "\<forall>m. r = Inl (Exception m) \<longrightarrow> stdout s' \<noteq> [] \<and> last (stdout s') = ''Pipeline failed: '' @ m"
proof -
  define s0 where "s0 = py_print (''Starting simple NFL data pipeline...'' @ [CHR 0x0A]) s"
  obtain rb sb where b: "simple_pipeline_steps env self s0 = (rb, sb)"
    by (cases "simple_pipeline_steps env self s0")
  have w0: "writes s0 = writes s" by (simp add: s0_def py_print_def)
  have "raise_is_last_write (writes s0) (simple_pipeline_steps env self s0)"
    by (rule simple_pipeline_steps_writes)
  then have inv: "raise_is_last_write (writes s) (rb, sb)"
    unfolding b w0 .
  from assms b have run:
    "(r, s') = (case rb of
                  Inl (Exception m) \<Rightarrow> (Inl (Exception m), py_print (''Pipeline failed: '' @ m) sb)
                | _ \<Rightarrow> (rb, sb))"
    by (auto simp: run_simple_pipeline_def Let_def except_Exception_def s0_def
             split: sum.splits py_raise.splits)
  then have r: "r = rb" and w: "writes s' = writes sb"
    by (auto simp: py_print_def split: sum.splits py_raise.splits)
  from inv r w show "raise_is_last_write (writes s) (r, s')"
    by (simp add: raise_is_last_write_def)
  from run show "\<forall>m. r = Inl (Exception m) \<longrightarrow>
                   stdout s' \<noteq> [] \<and> last (stdout s') = ''Pipeline failed: '' @ m"
    by (auto simp: py_print_def split: sum.splits py_raise.splits)
qed

text \<open>
  C9. In the simplified pipeline, if a step raises an exception, the top-level run prints
  the failure and raises the same exception to its caller. The steps raise through
  their writes only: whenever a write of the run raised \<open>e\<close>, the run ends by raising
  \<open>e\<close>, after printing it when it is an \<^verbatim>\<open>Exception\<close>; and what the run raises is
  what its last write raised.
\<close>

theorem simple_pipeline_reraises_after_logging:
  assumes "run_simple_pipeline env self s = (r, s')"
  shows "(\<forall>x\<in>set (new_writes s s'). \<forall>e.
            write_outcome x = Some e \<longrightarrow>
            r = Inl e \<and> (\<forall>m. e = Exception m \<longrightarrow> last (stdout s') = ''Pipeline failed: '' @ m)) \<and>
         (\<forall>e. r = Inl e \<longrightarrow>
            new_writes s s' \<noteq> [] \<and> write_outcome (last (new_writes s s')) = Some e)"
proof -
  note res = run_simple_pipeline_result[OF assms]
  from res(1) obtain wx where wx: "writes s' = writes s @ wx"
    "\<forall>x\<in>set (butlast wx). write_outcome x = None"
    "case r of Inr v \<Rightarrow> (\<forall>x\<in>set wx. write_outcome x = None)
             | Inl e \<Rightarrow> wx \<noteq> [] \<and> write_outcome (last wx) = Some e"
    by (auto simp: raise_is_last_write_def)
  from wx(1) have nw: "new_writes s s' = wx" by (simp add: new_writes_def)
  have a: "r = Inl e \<and> (\<forall>m. e = Exception m \<longrightarrow> last (stdout s') = ''Pipeline failed: '' @ m)"
    if x: "x \<in> set wx" and e: "write_outcome x = Some e" for x e
  proof -
    from x have ne: "wx \<noteq> []" by auto
    then have "wx = butlast wx @ [last wx]" by simp
    with x have "x \<in> set (butlast wx) \<or> x = last wx"
      by (metis Un_iff empty_iff empty_set insert_iff list.simps(15) set_append)
    with wx(2) e have l: "x = last wx" by auto
    have "r = Inl e"
    proof (cases r)
      case (Inl e')
      with wx(3) l e show ?thesis by simp
    next
      case (Inr v)
      with wx(3) x e show ?thesis by auto
    qed
    with res(2) show ?thesis by simp
  qed
  have b: "new_writes s s' \<noteq> [] \<and> write_outcome (last (new_writes s s')) = Some e"
    if "r = Inl e" for e
    using that wx(3) nw by simp
  from a b nw show ?thesis by blast
qed

lemma run_on_full_disk:
  "run_simple_pipeline (disk_full_env 2) example_fetcher start_state =
   (Inl (Exception ''[Errno 28] No space left on device''),
    \<lparr>world = 3,
     stdout = [''Starting simple NFL data pipeline...'' @ [CHR 0x0A],
               ''Fetching NFL teams data...'',
               ''Saved 32 teams to data/nfl/teams.json'',
               ''Creating sample roster data...'',
               ''Created sample roster with 7 players at data/nfl/rosters_2024.json'',
               ''Creating sample statistics data...'',
               ''Pipeline failed: [Errno 28] No space left on device''],
     posts = [], import_log = [],
     writes = [(''data/nfl/teams.json'', JArr (map JObj teams), None),
               (''data/nfl/rosters_2024.json'', JArr (map JObj sample_players), None),
               (''data/nfl/passing_stats_2024.json'', JArr (map JObj passing_stats),
                Some (Exception ''[Errno 28] No space left on device''))]\<rparr>)"
proof -
  have n: "str_nat (length teams) = ''32''" "str_nat (length sample_players) = ''7''"
    by (simp_all add: teams_def sample_players_def str_nat.simps)
  show ?thesis
    by (simp add: run_simple_pipeline_def simple_pipeline_steps_def fetch_teams_data_def
        create_sample_rosters_def create_sample_stats_def step_defs n disk_full_env_def
        example_fetcher_def start_state_def)
qed

text \<open>An instance: the disk is full after two files; the third write raises, the run
  prints the failure and raises the same \<^verbatim>\<open>OSError\<close>.\<close>

theorem simple_pipeline_reraises_after_logging_witness:
  "(\<exists>s'. run_simple_pipeline (disk_full_env 2) example_fetcher start_state =
          (Inl (Exception ''[Errno 28] No space left on device''), s') \<and>
         map write_outcome (new_writes start_state s') =
           [None, None, Some (Exception ''[Errno 28] No space left on device'')] \<and>
         last (stdout s') = ''Pipeline failed: [Errno 28] No space left on device'')"
proof -
  note th = simple_pipeline_reraises_after_logging[OF run_on_full_disk]
  have w: "writes start_state = []" by (simp add: start_state_def)
  from th show ?thesis
    unfolding run_on_full_disk
    by (simp add: new_writes_def w write_outcome_def)
qed

section \<open>The store-level uploader is the uploader, and it only allocates\<close>

lemma upload_batches_ref_frame:
  assumes "upload_batches_ref env u hdr data bs idxs (h, s) = (c, h', s')"
    and "data < next_addr h" and "cells h data = Some xs"
  shows "(c, s') = upload_batches env u hdr xs bs idxs s \<and>
         next_addr h \<le> next_addr h' \<and> (\<forall>a<next_addr h. cells h' a = cells h a)"
  using assms
proof (induction idxs arbitrary: h s)
  case Nil
  then show ?case by simp
next
  case (Cons i rest)
  define h1 where "h1 = snd (new_list h (py_slice (deref h data) i (i + bs)))"
  have d: "deref h data = xs" using Cons.prems(3) by (simp add: deref_def)
  have n1: "next_addr h1 = Suc (next_addr h)"
    and c1: "\<forall>a<next_addr h. cells h1 a = cells h a"
    and b1: "deref h1 (next_addr h) = py_slice xs i (i + bs)"
    using Cons.prems(3) by (simp_all add: h1_def new_list_def deref_def)
  from c1 Cons.prems(2,3) have x1: "cells h1 data = Some xs" by simp
  then have d1: "deref h1 data = xs" by (simp add: deref_def)
  have nl: "new_list h (py_slice xs i (i + bs)) = (next_addr h, h1)"
    by (simp add: h1_def new_list_def d)
  obtain out s1 where pc:
    "post_call env \<lparr>url = u, headers = hdr, json_body = py_slice xs i (i + bs)\<rparr> s = (out, s1)"
    by (cases "post_call env \<lparr>url = u, headers = hdr, json_body = py_slice xs i (i + bs)\<rparr> s")
  show ?case
  proof (cases out)
    case (Inl e)
    with Cons.prems(1) pc nl d b1 n1 c1 show ?thesis by simp
  next
    case (Inr resp)
    show ?thesis
    proof (cases "status_code resp \<in> {200, 201}")
      case False
      with Cons.prems(1) pc nl d b1 n1 c1 Inr show ?thesis by simp
    next
      case True
      let ?s2 = "py_print (''Updated batch '' @ str_nat (i div bs + 1) @ ''/''
                           @ str_nat ((length xs + bs - 1) div bs)) s1"
      from True Cons.prems(1) pc nl d b1 d1 Inr
      have run: "upload_batches_ref env u hdr data bs rest (h1, ?s2) = (c, h', s')"
        by simp
      have lt: "data < next_addr h1" using Cons.prems(2) n1 by simp
      from Cons.IH[OF run lt x1]
      have IH: "(c, s') = upload_batches env u hdr xs bs rest ?s2"
        "next_addr h1 \<le> next_addr h'" "\<forall>a<next_addr h1. cells h' a = cells h1 a"
        by simp_all
      from IH(1) True pc Inr have "(c, s') = upload_batches env u hdr xs bs (i # rest) s"
        by simp
      moreover from IH(2) n1 have "next_addr h \<le> next_addr h'" by simp
      moreover from IH(3) n1 c1 have "\<forall>a<next_addr h. cells h' a = cells h a" by simp
      ultimately show ?thesis by blast
    qed
  qed
qed

lemma update_supabase_database_ref_frame:
  assumes "update_supabase_database_ref env self data_type data (h, s) = (r, h', s')"
    and "data < next_addr h" and "cells h data = Some xs"
  shows "(r, s') = update_supabase_database env self data_type xs s"
    and "\<forall>a<next_addr h. cells h' a = cells h a"
proof -
  have d: "deref h data = xs" using assms(3) by (simp add: deref_def)
  let ?u = "the (supabase_url self) @ ''/rest/v1/'' @ dict_get table_mapping data_type data_type"
  let ?hdr = "[(''apikey'', the (supabase_key self)),
              (''Authorization'', ''Bearer '' @ the (supabase_key self)),
              (''Content-Type'', ''application/json''),
              (''Prefer'', ''return=minimal'')]"
  let ?s0 = "py_print (''Updating Supabase with '' @ data_type @ '' data (''
                       @ str_nat (length xs) @ '' records)...'') s"
  obtain c h1 s1 where loop:
    "upload_batches_ref env ?u ?hdr data 100 (py_range 0 (length xs) 100) (h, ?s0) = (c, h1, s1)"
    by (cases "upload_batches_ref env ?u ?hdr data 100 (py_range 0 (length xs) 100) (h, ?s0)")
  note f = upload_batches_ref_frame[OF loop assms(2,3)]
  from f assms(2,3) have "cells h1 data = Some xs" by simp
  then have d1: "deref h1 data = xs" by (simp add: deref_def)
  from f have v: "upload_batches env ?u ?hdr xs 100 (py_range 0 (length xs) 100) ?s0 = (c, s1)"
    by simp
  show "(r, s') = update_supabase_database env self data_type xs s"
    using assms(1) loop v d d1
    by (auto simp: update_supabase_database_ref_def update_supabase_database_def
          upload_try_ref_def upload_try_def Let_def
          split: completion.splits sum.splits py_raise.splits)
  show "\<forall>a<next_addr h. cells h' a = cells h a"
    using assms(1) loop f d
    by (auto simp: update_supabase_database_ref_def upload_try_ref_def Let_def
          split: completion.splits sum.splits py_raise.splits if_splits)
qed

section \<open>The uploader does not change the caller's list\<close>

text \<open>
  C10. For every data type and every input record sequence, the uploader never mutates
  its input: when the call returns, with \<open>True\<close> or with \<open>False\<close>, the caller's list
  holds the records it held, in the same order. Over the store, the call only allocates:
  every list object that existed before the call, the caller's among them, has the
  contents it had; and the result and the requests are those of the uploader on the
  contents of the list.
\<close>

theorem upload_leaves_input_list_unchanged:
  assumes "update_supabase_database_ref env self data_type data (h, s) = (r, h', s')"
    and "data < next_addr h" and "cells h data = Some xs"
  shows "cells h' data = Some xs \<and> deref h' data = xs \<and>
         (\<forall>a<next_addr h. cells h' a = cells h a) \<and>
         (r, s') = update_supabase_database env self data_type xs s"
proof -
  note f = update_supabase_database_ref_frame[OF assms]
  from f(2) assms(2,3) have "cells h' data = Some xs" by simp
  moreover from this have "deref h' data = xs" by (simp add: deref_def)
  ultimately show ?thesis using f by blast
qed

text \<open>An instance: the caller's 250 records at address 0, the second batch rejected; the
  call returns \<open>False\<close> and the list at address 0 is the one passed in.\<close>

theorem upload_leaves_input_list_unchanged_witness:
  "0 < next_addr (caller_heap (numbered_records 250)) \<and>
   cells (caller_heap (numbered_records 250)) 0 = Some (numbered_records 250) \<and>
   fst (update_supabase_database_ref
          (scripted_env [Inr \<lparr>status_code = 200, response_text = ''''\<rparr>,
                         Inr \<lparr>status_code = 500, response_text = ''boom''\<rparr>])
          example_pipeline ''players'' 0 (caller_heap (numbered_records 250), start_state))
     = Inr False \<and>
   cells (fst (snd (update_supabase_database_ref
          (scripted_env [Inr \<lparr>status_code = 200, response_text = ''''\<rparr>,
                         Inr \<lparr>status_code = 500, response_text = ''boom''\<rparr>])
          example_pipeline ''players'' 0 (caller_heap (numbered_records 250), start_state)))) 0
     = Some (numbered_records 250)"
proof -
  let ?run = "update_supabase_database_ref
          (scripted_env [Inr \<lparr>status_code = 200, response_text = ''''\<rparr>,
                         Inr \<lparr>status_code = 500, response_text = ''boom''\<rparr>])
          example_pipeline ''players'' 0 (caller_heap (numbered_records 250), start_state)"
  have a: "0 < next_addr (caller_heap (numbered_records 250))"
    and b: "cells (caller_heap (numbered_records 250)) 0 = Some (numbered_records 250)"
    by (simp_all add: caller_heap_def)
  have c: "?run = (fst ?run, fst (snd ?run), snd (snd ?run))" by simp
  from upload_leaves_input_list_unchanged[OF c a b]
  have "cells (fst (snd ?run)) 0 = Some (numbered_records 250)"
    and "(fst ?run, snd (snd ?run)) =
         update_supabase_database
           (scripted_env [Inr \<lparr>status_code = 200, response_text = ''''\<rparr>,
                          Inr \<lparr>status_code = 500, response_text = ''boom''\<rparr>])
           example_pipeline ''players'' (numbered_records 250) start_state"
    by blast+
  then have "cells (fst (snd ?run)) 0 = Some (numbered_records 250)" and "fst ?run = Inr False"
    unfolding run_second_rejected by simp_all
  with a b show ?thesis by blast
qed

end
